theory Spec2Isabelle
  imports Main "HOL-Library.Multiset"
begin

section \<open>Conventions for the Go runtime\<close>

text \<open>
  A Go \<^verbatim>\<open>string\<close> is a byte string, hence a \<^typ>\<open>string\<close> here; a non-ASCII
  rune of a source literal is written as its UTF-8 bytes.

  A Go \<^verbatim>\<open>map[string]string\<close> is an association list with distinct keys. An
  index expression \<^verbatim>\<open>m[k]\<close> is \<open>goIndex\<close> (the zero value \<open>''''\<close> for a missing
  key), the comma-ok form is \<open>goHasKey\<close>. A \<^verbatim>\<open>range\<close> over a map that a function
  receives visits the entries in the order of the list: Go leaves that order
  unspecified, so the list stands for the map together with the visiting order of
  the run at hand, and two runs on one map differ by a permutation of the list.
  Where the code ranges over a map it has built itself, the visiting order is an
  explicit argument of the model.
\<close>

type_synonym gomap = "(string \<times> string) list"

definition goIndex :: "gomap \<Rightarrow> string \<Rightarrow> string" where
  "goIndex m k = (case map_of m k of None \<Rightarrow> '''' | Some v \<Rightarrow> v)"

definition goHasKey :: "gomap \<Rightarrow> string \<Rightarrow> bool" where
  "goHasKey m k = (case map_of m k of None \<Rightarrow> False | Some v \<Rightarrow> True)"

text \<open>Two association lists that stand for one Go map, visited in two orders.\<close>

definition sameGoMap :: "gomap \<Rightarrow> gomap \<Rightarrow> bool" where
  "sameGoMap m1 m2 = (distinct (map fst m1) \<and> distinct (map fst m2) \<and> mset m1 = mset m2)"

section \<open>Scanner types (pkg/scanner/types.go)\<close>

record ControllerInfo =
  Detected :: bool
  Type :: string
  Version :: string
  ci_Namespace :: string
  PodName :: string

record PathInfo =
  Host :: string
  Path :: string
  PathType :: string
  ServiceName :: string
  ServicePort :: int

record ServiceRef =
  sr_Namespace :: string
  sr_Name :: string
  Port :: int

record IngressInfo =
  Namespace :: string
  Name :: string
  IngressClass :: string
  Hosts :: "string list"
  Paths :: "PathInfo list"
  TLSEnabled :: bool
  TLSSecrets :: "string list"
  Annotations :: gomap
  NginxAnnotations :: gomap
  Services :: "ServiceRef list"
  Complexity :: string

record ScanResult =
  ClusterName :: string
  Controller :: ControllerInfo
  Ingresses :: "IngressInfo list"
  Namespaces :: "string list"

section \<open>Knowledge base and classifier (pkg/analyzer)\<close>

datatype MappingStatus = StatusSupported | StatusPartial | StatusUnsupported

record AnnotationMapping =
  OriginalKey :: string
  OriginalValue :: string
  Status :: MappingStatus
  TargetResource :: string
  GeneratedYAML :: string
  Note :: string

text \<open>The two tables of the knowledge base (package analyzer), entry by entry.\<close>

definition traefikMappings :: "(string \<times> MappingStatus \<times> string \<times> string) list" where
  \<open>traefikMappings = [
    (''ssl-redirect'', StatusSupported, ''Middleware (RedirectScheme)'', ''Generates RedirectScheme middleware''),
    (''force-ssl-redirect'', StatusSupported, ''Middleware (RedirectScheme)'', ''Permanent redirect to HTTPS''),
    (''enable-cors'', StatusSupported, ''Middleware (Headers)'', ''Generates CORS Headers middleware''),
    (''cors-allow-origin'', StatusSupported, ''Middleware (Headers)'', ''Part of Headers CORS middleware''),
    (''cors-allow-methods'', StatusSupported, ''Middleware (Headers)'', ''Part of Headers CORS middleware''),
    (''cors-allow-headers'', StatusSupported, ''Middleware (Headers)'', ''Part of Headers CORS middleware''),
    (''cors-expose-headers'', StatusSupported, ''Middleware (Headers)'', ''Part of Headers CORS middleware''),
    (''cors-allow-credentials'', StatusSupported, ''Middleware (Headers)'', ''Part of Headers CORS middleware''),
    (''cors-max-age'', StatusSupported, ''Middleware (Headers)'', ''Part of Headers CORS middleware''),
    (''affinity'', StatusSupported, ''Service sticky annotation'', ''Traefik sticky cookie on Service''),
    (''session-cookie-name'', StatusSupported, ''Service sticky annotation'', ''Cookie name for session affinity''),
    (''session-cookie-path'', StatusPartial, ''Service sticky annotation'', ''Limited path support''),
    (''session-cookie-samesite'', StatusSupported, ''Service sticky annotation'', ''SameSite attribute''),
    (''session-cookie-secure'', StatusSupported, ''Service sticky annotation'', ''Secure flag''),
    (''limit-rps'', StatusSupported, ''Middleware (RateLimit)'', ''Generates RateLimit middleware''),
    (''limit-rpm'', StatusSupported, ''Middleware (RateLimit)'', ''Converted to average rate''),
    (''limit-connections'', StatusSupported, ''Middleware (InFlightReq)'', ''Max concurrent requests''),
    (''limit-burst-multiplier'', StatusSupported, ''Middleware (RateLimit)'', ''Burst size multiplier''),
    (''limit-whitelist'', StatusSupported, ''Middleware (RateLimit)'', ''Exempt IPs from rate limiting''),
    (''auth-url'', StatusSupported, ''Middleware (ForwardAuth)'', ''Generates ForwardAuth middleware''),
    (''auth-method'', StatusPartial, ''Middleware (ForwardAuth)'', ''Only GET/POST supported''),
    (''auth-response-headers'', StatusSupported, ''Middleware (ForwardAuth)'', ''Headers passed after auth''),
    (''auth-request-redirect'', StatusPartial, ''Middleware (ForwardAuth)'', ''Redirect URL for auth failure''),
    (''auth-type'', StatusPartial, ''Middleware (BasicAuth)'', ''Basic auth only; digest not supported''),
    (''auth-secret'', StatusPartial, ''Middleware (BasicAuth)'', ''Secret format differs from NGINX''),
    (''auth-realm'', StatusSupported, ''Middleware (BasicAuth)'', ''Auth realm''),
    (''whitelist-source-range'', StatusSupported, ''Middleware (IPAllowList)'', ''Generates IPAllowList middleware''),
    (''denylist-source-range'', StatusSupported, ''Middleware (IPDenyList)'', ''Generates IPDenyList middleware''),
    (''custom-headers'', StatusPartial, ''Middleware (Headers)'', ''ConfigMap ref not supported; inline headers needed''),
    (''rewrite-target'', StatusSupported, ''Middleware (ReplacePath/AddPrefix)'', ''URL rewrite middleware''),
    (''use-regex'', StatusSupported, ''Router (native)'', ''Traefik supports regex routing natively''),
    (''app-root'', StatusSupported, ''Router + Middleware'', ''Redirect root path''),
    (''permanent-redirect'', StatusSupported, ''Middleware (RedirectRegex)'', ''Permanent redirect''),
    (''temporal-redirect'', StatusSupported, ''Middleware (RedirectRegex)'', ''Temporary redirect''),
    (''canary'', StatusSupported, ''Weighted Services'', ''Weighted backend traffic splitting''),
    (''canary-weight'', StatusSupported, ''Weighted Services'', ''Traffic weight percentage''),
    (''canary-by-header'', StatusPartial, ''Router rules'', ''Header matching in router rules''),
    (''canary-by-header-value'', StatusPartial, ''Router rules'', ''Header value matching''),
    (''canary-by-cookie'', StatusPartial, ''Router rules'', ''Cookie-based routing via rules''),
    (''proxy-read-timeout'', StatusPartial, ''ServersTransport CRD'', ''Requires ServersTransport resource''),
    (''proxy-send-timeout'', StatusPartial, ''ServersTransport CRD'', ''Requires ServersTransport resource''),
    (''proxy-connect-timeout'', StatusPartial, ''ServersTransport CRD'', ''Requires ServersTransport resource''),
    (''proxy-buffering'', StatusUnsupported, '''', ''No direct Traefik equivalent''),
    (''proxy-body-size'', StatusPartial, ''Middleware (Buffering)'', ''Traefik Buffering middleware with maxRequestBodyBytes''),
    (''proxy-request-buffering'', StatusPartial, ''Native (off by default)'', ''Off is default behavior; enabling request buffering requires Buffering middleware''),
    (''client-body-buffer-size'', StatusUnsupported, '''', ''No Traefik equivalent''),
    (''configuration-snippet'', StatusUnsupported, '''', ''NGINX-specific; intentionally not supported''),
    (''server-snippet'', StatusUnsupported, '''', ''NGINX-specific; intentionally not supported''),
    (''ssl-passthrough'', StatusPartial, ''Traefik TCP router'', ''Requires TCP entrypoint config''),
    (''backend-protocol'', StatusPartial, ''Service annotation'', ''HTTPS/GRPC backends need ServersTransport''),
    (''websocket-services'', StatusSupported, ''Native'', ''Traefik supports WebSocket natively''),
    (''grpc-backend'', StatusPartial, ''ServersTransport + h2c'', ''gRPC requires h2c configuration''),
    (''upstream-hash-by'', StatusUnsupported, '''', ''Hash-based LB not supported in Traefik Ingress''),
    (''load-balance'', StatusUnsupported, '''', ''Traefik uses round-robin; custom LB not via Ingress''),
    (''affinity-mode'', StatusPartial, ''Service (sticky cookie)'', ''Traefik always uses persistent affinity; balanced re-balancing is not available''),
    (''canary-weight-total'', StatusSupported, ''Weighted Services'', ''Traefik uses relative weights; total is implicit''),
    (''proxy-http-version'', StatusPartial, ''ServersTransport CRD'', ''HTTP/2 via ServersTransport; HTTP/1.0 not supported''),
    (''session-cookie-expires'', StatusPartial, ''Service (sticky cookie maxage)'', ''Convert seconds to service.sticky.cookie.maxage annotation on Service''),
    (''session-cookie-max-age'', StatusSupported, ''Service (sticky cookie maxage)'', ''Maps to service.sticky.cookie.maxage annotation on Service''),
    (''session-cookie-conditional-samesite-none'', StatusUnsupported, '''', ''Traefik sets SameSite statically '' @ [CHR 0xE2, CHR 0x80, CHR 0x94] @ '' no UA-conditional logic''),
    (''session-cookie-change-on-failure'', StatusUnsupported, '''', ''No Traefik equivalent (traefik/traefik#1299)''),
    (''service-upstream'', StatusSupported, ''Service annotation (nativelb)'', ''Set traefik.ingress.kubernetes.io/service.nativelb: '' @ [CHR 0x27] @ ''true'' @ [CHR 0x27] @ '' on Service''),
    (''from-to-www-redirect'', StatusPartial, ''Middleware (RedirectRegex)'', ''Requires RedirectRegex middleware + separate Ingress entry for www''),
    (''upstream-vhost'', StatusPartial, ''Middleware (Headers) + passhostheader'', ''Headers middleware sets Host header; disable passhostheader on Service''),
    (''secure-verify-ca-secret'', StatusPartial, ''ServersTransport (rootCAs)'', ''ServersTransport CRD referencing the CA secret'')
  ]\<close>

definition gatewayAPIMappings :: "(string \<times> MappingStatus \<times> string \<times> string) list" where
  \<open>gatewayAPIMappings = [
    (''ssl-redirect'', StatusSupported, ''HTTPRoute (RequestRedirect filter)'', ''RequestRedirect filter with scheme=https''),
    (''force-ssl-redirect'', StatusSupported, ''HTTPRoute (RequestRedirect filter)'', ''301 redirect to HTTPS''),
    (''rewrite-target'', StatusSupported, ''HTTPRoute (URLRewrite filter)'', ''Path rewrite via URLRewrite filter''),
    (''custom-headers'', StatusSupported, ''HTTPRoute (ResponseHeaderModifier)'', ''Response header manipulation filter''),
    (''canary'', StatusSupported, ''HTTPRoute (weighted backendRefs)'', ''Traffic split via backendRefs weights''),
    (''canary-weight'', StatusSupported, ''HTTPRoute (weighted backendRefs)'', ''Weight value in backendRefs''),
    (''enable-cors'', StatusPartial, ''HTTPRoute (ResponseHeaderModifier)'', ''Manual CORS headers; no native CORS filter in v1''),
    (''cors-allow-origin'', StatusPartial, ''HTTPRoute (ResponseHeaderModifier)'', ''Set Access-Control-Allow-Origin header''),
    (''cors-allow-methods'', StatusPartial, ''HTTPRoute (ResponseHeaderModifier)'', ''Set Access-Control-Allow-Methods header''),
    (''cors-allow-headers'', StatusPartial, ''HTTPRoute (ResponseHeaderModifier)'', ''Set Access-Control-Allow-Headers header''),
    (''cors-allow-credentials'', StatusPartial, ''HTTPRoute (ResponseHeaderModifier)'', ''Set Access-Control-Allow-Credentials header''),
    (''auth-url'', StatusPartial, ''SecurityPolicy (ExtensionRef)'', ''Envoy Gateway SecurityPolicy with ext-auth''),
    (''auth-response-headers'', StatusPartial, ''SecurityPolicy (ExtensionRef)'', ''Part of SecurityPolicy ext-auth config''),
    (''limit-rps'', StatusPartial, ''BackendTrafficPolicy (RateLimit)'', ''Envoy Gateway BackendTrafficPolicy''),
    (''limit-rpm'', StatusPartial, ''BackendTrafficPolicy (RateLimit)'', ''Converted to rate limit''),
    (''limit-connections'', StatusPartial, ''BackendTrafficPolicy (CircuitBreaker)'', ''Circuit breaker policy''),
    (''whitelist-source-range'', StatusPartial, ''HTTPRoute (source IP match)'', ''HTTPRouteMatch with client IP '' @ [CHR 0xE2, CHR 0x80, CHR 0x94] @ '' limited support''),
    (''denylist-source-range'', StatusPartial, ''SecurityPolicy (IPFilter)'', ''Envoy Gateway SecurityPolicy IP filter''),
    (''affinity'', StatusPartial, ''BackendLBPolicy (SessionPersistence)'', ''Gateway API v1.1 SessionPersistence''),
    (''session-cookie-name'', StatusPartial, ''BackendLBPolicy'', ''Cookie name in SessionPersistence''),
    (''proxy-read-timeout'', StatusPartial, ''HTTPRoute (timeouts)'', ''HTTPRoute spec.rules[].timeouts.backendRequest''),
    (''proxy-connect-timeout'', StatusPartial, ''HTTPRoute (timeouts)'', ''HTTPRoute spec.rules[].timeouts.request''),
    (''canary-by-header'', StatusSupported, ''HTTPRoute (header match)'', ''Match header in HTTPRouteMatch''),
    (''canary-by-header-value'', StatusSupported, ''HTTPRoute (header match)'', ''Exact header value match''),
    (''use-regex'', StatusSupported, ''HTTPRoute (PathMatch RegularExpression)'', ''Native regex path matching''),
    (''permanent-redirect'', StatusSupported, ''HTTPRoute (RequestRedirect)'', ''301 redirect filter''),
    (''temporal-redirect'', StatusSupported, ''HTTPRoute (RequestRedirect)'', ''302 redirect filter''),
    (''backend-protocol'', StatusPartial, ''Gateway TLS config'', ''TLS backend via Gateway listener config''),
    (''websocket-services'', StatusSupported, ''Native'', ''Gateway API supports WebSocket natively''),
    (''grpc-backend'', StatusSupported, ''GRPCRoute'', ''Dedicated GRPCRoute resource''),
    (''proxy-body-size'', StatusPartial, ''BackendTrafficPolicy (requestBuffer)'', ''Envoy Gateway BackendTrafficPolicy with requestBuffer.limit''),
    (''proxy-request-buffering'', StatusSupported, ''Native'', ''Envoy Gateway streams requests by default (off is the default)''),
    (''configuration-snippet'', StatusUnsupported, '''', ''NGINX-specific; no equivalent''),
    (''server-snippet'', StatusUnsupported, '''', ''NGINX-specific; no equivalent''),
    (''auth-type'', StatusUnsupported, '''', ''No basic auth in core Gateway API''),
    (''auth-secret'', StatusUnsupported, '''', ''No basic auth in core Gateway API''),
    (''ssl-passthrough'', StatusPartial, ''TLSRoute'', ''TLS passthrough via TLSRoute''),
    (''load-balance'', StatusUnsupported, '''', ''Not configurable via Gateway API''),
    (''upstream-hash-by'', StatusUnsupported, '''', ''Not in core Gateway API''),
    (''affinity-mode'', StatusPartial, ''BackendLBPolicy (SessionPersistence)'', ''Cookie persistence in BackendLBPolicy; balanced re-balancing unavailable in spec''),
    (''canary-weight-total'', StatusSupported, ''HTTPRoute (weighted backendRefs)'', ''Gateway API backendRefs weights are relative; total is implicit''),
    (''proxy-http-version'', StatusSupported, ''Native'', ''Envoy Gateway handles HTTP/2 and HTTP/1.1 natively''),
    (''session-cookie-expires'', StatusPartial, ''BackendLBPolicy (absoluteTimeout)'', ''BackendLBPolicy cookieConfig.lifetimeType: Permanent + absoluteTimeout''),
    (''session-cookie-max-age'', StatusPartial, ''BackendLBPolicy (absoluteTimeout)'', ''BackendLBPolicy cookieConfig.absoluteTimeout field''),
    (''session-cookie-conditional-samesite-none'', StatusUnsupported, '''', ''No Gateway API or Envoy Gateway equivalent''),
    (''session-cookie-change-on-failure'', StatusUnsupported, '''', ''No Gateway API equivalent''),
    (''service-upstream'', StatusSupported, ''Native'', ''Gateway API routes to pod IPs natively (no kube-proxy overhead)''),
    (''from-to-www-redirect'', StatusSupported, ''HTTPRoute (RequestRedirect)'', ''HTTPRoute RequestRedirect filter with hostname replacement''),
    (''upstream-vhost'', StatusSupported, ''HTTPRoute (RequestHeaderModifier)'', ''RequestHeaderModifier filter sets Host header''),
    (''secure-verify-ca-secret'', StatusPartial, ''BackendTLSPolicy'', ''BackendTLSPolicy with caCertificateRefs for backend TLS verification''),
    (''session-cookie-samesite'', StatusUnsupported, '''', ''SameSite is not configurable in BackendLBPolicy; no Gateway API equivalent''),
    (''session-cookie-path'', StatusUnsupported, '''', ''Cookie path scoping is not in BackendLBPolicy spec''),
    (''session-cookie-secure'', StatusUnsupported, '''', ''Secure flag is not configurable in BackendLBPolicy spec''),
    (''proxy-send-timeout'', StatusUnsupported, '''', ''No Gateway API equivalent; only backendRequest timeout (from proxy-read-timeout) is supported''),
    (''proxy-buffering'', StatusUnsupported, '''', ''No Gateway API or Envoy Gateway equivalent''),
    (''cors-expose-headers'', StatusPartial, ''HTTPRoute (ResponseHeaderModifier)'', ''Set Access-Control-Expose-Headers via ResponseHeaderModifier''),
    (''cors-max-age'', StatusPartial, ''HTTPRoute (ResponseHeaderModifier)'', ''Set Access-Control-Max-Age via ResponseHeaderModifier''),
    (''limit-burst-multiplier'', StatusPartial, ''BackendTrafficPolicy (RateLimit)'', ''Burst is configurable in BackendTrafficPolicy but uses tokens, not a multiplier''),
    (''limit-whitelist'', StatusUnsupported, '''', ''Per-IP rate limit exemption list is not in BackendTrafficPolicy spec''),
    (''canary-by-cookie'', StatusUnsupported, '''', ''Cookie-based canary routing requires ExtensionRef; not in core Gateway API''),
    (''app-root'', StatusPartial, ''HTTPRoute (URLRewrite)'', ''URLRewrite on root path can redirect / to the app root; limited to exact path'')
  ]\<close>

definition MapAnnotation :: "string \<Rightarrow> string \<Rightarrow> string \<Rightarrow> AnnotationMapping" where
  "MapAnnotation key val target =
     (case (if target = ''traefik'' then Some traefikMappings
            else if target = ''gateway-api'' then Some gatewayAPIMappings
            else None) of
        None \<Rightarrow>
          \<lparr>OriginalKey = key, OriginalValue = val, Status = StatusUnsupported,
           TargetResource = '''', GeneratedYAML = '''', Note = ''Unknown target''\<rparr>
      | Some mappings \<Rightarrow>
          (case map_of mappings key of
             Some (st, res, note) \<Rightarrow>
               \<lparr>OriginalKey = key, OriginalValue = val, Status = st,
                TargetResource = res, GeneratedYAML = '''', Note = note\<rparr>
           | None \<Rightarrow>
               \<lparr>OriginalKey = key, OriginalValue = val, Status = StatusUnsupported,
                TargetResource = '''', GeneratedYAML = '''',
                Note = ''Unknown annotation '' @ [CHR 0xE2, CHR 0x80, CHR 0x94]
                         @ '' manual review required''\<rparr>))"

record IngressReport =
  ir_Namespace :: string
  ir_Name :: string
  Mappings :: "AnnotationMapping list"
  OverallStatus :: string

text \<open>The counters are Go \<^verbatim>\<open>int\<close>s that only count the elements of a slice in
  memory, so they cannot wrap; they are natural numbers here.\<close>

record Summary =
  Total :: nat
  FullyCompatible :: nat
  NeedsWorkaround :: nat
  HasUnsupported :: nat

record AnalysisReport =
  Target :: string
  IngressReports :: "IngressReport list"
  Summary :: Summary

text \<open>One turn of the loop of \<^verbatim>\<open>analyzeIngress\<close> over the annotation map: the state is
  the mapping list with the two flags \<^verbatim>\<open>hasUnsupported\<close> and \<^verbatim>\<open>hasPartial\<close>.\<close>

definition analyzeIngressStep ::
  "string \<Rightarrow> AnnotationMapping list \<times> bool \<times> bool \<Rightarrow> string \<times> string
     \<Rightarrow> AnnotationMapping list \<times> bool \<times> bool" where
  "analyzeIngressStep target st kv =
     (case st of (ms, hasUnsupported, hasPartial) \<Rightarrow>
        (let mapping = MapAnnotation (fst kv) (snd kv) target;
             ms' = ms @ [mapping]
         in case Status mapping of
              StatusUnsupported \<Rightarrow> (ms', True, hasPartial)
            | StatusPartial \<Rightarrow> (ms', hasUnsupported, True)
            | StatusSupported \<Rightarrow> (ms', hasUnsupported, hasPartial)))"

definition analyzeIngress :: "string \<Rightarrow> IngressInfo \<Rightarrow> IngressReport" where
  "analyzeIngress target ing =
     (case foldl (analyzeIngressStep target) ([], False, False) (NginxAnnotations ing) of
        (ms, hasUnsupported, hasPartial) \<Rightarrow>
          \<lparr>ir_Namespace = Namespace ing, ir_Name = Name ing, Mappings = ms,
           OverallStatus = (if hasUnsupported then ''breaking''
                            else if hasPartial then ''workaround''
                            else ''ready'')\<rparr>)"

text \<open>One turn of the loop of \<^verbatim>\<open>Analyze\<close> over the ingresses of the scan.\<close>

definition analyzeStep :: "string \<Rightarrow> AnalysisReport \<Rightarrow> IngressInfo \<Rightarrow> AnalysisReport" where
  "analyzeStep target report ing =
     (let ir = analyzeIngress target ing;
          s = (Summary report)\<lparr>Total := Total (Summary report) + 1\<rparr>;
          s' = (if OverallStatus ir = ''ready''
                  then s\<lparr>FullyCompatible := FullyCompatible s + 1\<rparr>
                else if OverallStatus ir = ''workaround''
                  then s\<lparr>NeedsWorkaround := NeedsWorkaround s + 1\<rparr>
                else if OverallStatus ir = ''breaking''
                  then s\<lparr>HasUnsupported := HasUnsupported s + 1\<rparr>
                else s)
      in report\<lparr>IngressReports := IngressReports report @ [ir], Summary := s'\<rparr>)"

definition Analyze :: "string \<Rightarrow> ScanResult \<Rightarrow> AnalysisReport" where
  "Analyze target scan =
     foldl (analyzeStep target)
       \<lparr>Target = target, IngressReports = [],
        Summary = \<lparr>Total = 0, FullyCompatible = 0, NeedsWorkaround = 0, HasUnsupported = 0\<rparr>\<rparr>
       (Ingresses scan)"

section \<open>The verbs of \<^verbatim>\<open>fmt.Sprintf\<close> and \<^verbatim>\<open>strings\<close>\<close>

text \<open>
  \<^verbatim>\<open>%s\<close> inserts the string, \<^verbatim>\<open>%d\<close> the signed decimal numeral, \<^verbatim>\<open>%q\<close> the
  string quoted as \<^verbatim>\<open>strconv.Quote\<close> does: rune by rune, after
  \<^verbatim>\<open>utf8.DecodeRuneInString\<close>. A byte that starts no valid encoding is written
  \<open>\xhh\<close>; a printable rune is copied (its encoding is the bytes that were decoded,
  since only the shortest encoding of a rune decodes); any other rune is escaped.
  \<^verbatim>\<open>strconv.IsPrint\<close> is written out for the runes up to \<open>U+00FF\<close>; for the runes
  above it reads tables of the Go library, which are the argument \<open>printable\<close> of
  the model. The branch of \<^verbatim>\<open>appendEscapedRune\<close> for a rune that is not valid is
  left out: a decoded rune is valid.
\<close>

function showNat :: "nat \<Rightarrow> string" where
  "showNat n = (if n < 10 then [''0123456789'' ! n]
                else showNat (n div 10) @ [''0123456789'' ! (n mod 10)])"
  by pat_completeness auto
termination
  by (relation "measure id") auto

declare showNat.simps [simp del]

definition formatD :: "int \<Rightarrow> string" where
  "formatD i = (if i < 0 then ''-'' @ showNat (nat (- i)) else showNat (nat i))"

definition hexDigits :: "nat \<Rightarrow> nat \<Rightarrow> string" where
  "hexDigits k r = map (\<lambda>i. ''0123456789abcdef'' ! ((r div 16 ^ i) mod 16)) (rev [0..<k])"

definition RuneError :: nat where
  "RuneError = 0xFFFD"

text \<open>\<^verbatim>\<open>utf8.DecodeRuneInString\<close> on the string \<open>c # cs\<close>: the rune and its width.\<close>

definition decodeRune :: "char \<Rightarrow> string \<Rightarrow> nat \<times> nat" where
  "decodeRune c cs =
     (let s0 = (of_char c :: nat); b = (map of_char cs :: nat list) in
      if s0 < 0x80 then (s0, 1)
      else if s0 < 0xC2 \<or> 0xF4 < s0 then (RuneError, 1)
      else
        (let sz = (if s0 < 0xE0 then 2 else if s0 < 0xF0 then 3 else (4::nat));
             lo = (if s0 = 0xE0 then 0xA0 else if s0 = 0xF0 then 0x90 else 0x80);
             hi = (if s0 = 0xED then 0x9F else if s0 = 0xF4 then 0x8F else 0xBF)
         in if Suc (length b) < sz then (RuneError, 1)
            else if b ! 0 < lo \<or> hi < b ! 0 then (RuneError, 1)
            else if sz \<le> 2 then ((s0 mod 32) * 64 + b ! 0 mod 64, 2)
            else if b ! 1 < 0x80 \<or> 0xBF < b ! 1 then (RuneError, 1)
            else if sz \<le> 3
              then ((s0 mod 16) * 4096 + (b ! 0 mod 64) * 64 + b ! 1 mod 64, 3)
            else if b ! 2 < 0x80 \<or> 0xBF < b ! 2 then (RuneError, 1)
            else ((s0 mod 8) * 262144 + (b ! 0 mod 64) * 4096 + (b ! 1 mod 64) * 64
                    + b ! 2 mod 64, 4)))"

definition IsPrint :: "(nat \<Rightarrow> bool) \<Rightarrow> nat \<Rightarrow> bool" where
  "IsPrint printable r =
     (if r \<le> 0xFF then
        (if 0x20 \<le> r \<and> r \<le> 0x7E then True
         else if 0xA1 \<le> r \<and> r \<le> 0xFF then r \<noteq> 0xAD
         else False)
      else printable r)"

text \<open>\<^verbatim>\<open>appendEscapedRune\<close> for the rune \<open>r\<close> whose encoding is \<open>enc\<close>.\<close>

definition appendEscapedRune :: "(nat \<Rightarrow> bool) \<Rightarrow> nat \<Rightarrow> string \<Rightarrow> string" where
  \<open>appendEscapedRune printable r enc =
     (if r = 0x22 then [CHR 0x5C, CHR 0x22]
      else if r = 0x5C then [CHR 0x5C, CHR 0x5C]
      else if IsPrint printable r then enc
      else if r = 0x07 then [CHR 0x5C, CHR ''a'']
      else if r = 0x08 then [CHR 0x5C, CHR ''b'']
      else if r = 0x0C then [CHR 0x5C, CHR ''f'']
      else if r = 0x0A then [CHR 0x5C, CHR ''n'']
      else if r = 0x0D then [CHR 0x5C, CHR ''r'']
      else if r = 0x09 then [CHR 0x5C, CHR ''t'']
      else if r = 0x0B then [CHR 0x5C, CHR ''v'']
      else if r < 0x20 \<or> r = 0x7F then [CHR 0x5C, CHR ''x''] @ hexDigits 2 r
      else if r < 0x10000 then [CHR 0x5C, CHR ''u''] @ hexDigits 4 r
      else [CHR 0x5C, CHR ''U''] @ hexDigits 8 r)\<close>

text \<open>The loop of \<^verbatim>\<open>appendQuotedWith\<close> over the runes of the string.\<close>

fun quoteRunes :: "(nat \<Rightarrow> bool) \<Rightarrow> string \<Rightarrow> string" where
  "quoteRunes printable [] = []"
| "quoteRunes printable (c # cs) =
     (case decodeRune c cs of (r, w) \<Rightarrow>
        (if w = 1 \<and> r = RuneError
         then [CHR 0x5C, CHR ''x''] @ hexDigits 2 (of_char c)
         else appendEscapedRune printable r (c # take (w - 1) cs))
        @ quoteRunes printable (drop (w - 1) cs))"

definition formatQ :: "(nat \<Rightarrow> bool) \<Rightarrow> string \<Rightarrow> string" where
  \<open>formatQ printable s = [CHR 0x22] @ quoteRunes printable s @ [CHR 0x22]\<close>

fun goJoin :: "string list \<Rightarrow> string \<Rightarrow> string" where
  "goJoin [] sep = ''''"
| "goJoin [x] sep = x"
| "goJoin (x # y # ys) sep = x @ sep @ goJoin (y # ys) sep"

fun goContains :: "string \<Rightarrow> string \<Rightarrow> bool" where
  "goContains [] sub = (sub = [])"
| "goContains (c # cs) sub = (take (length sub) (c # cs) = sub \<or> goContains cs sub)"

section \<open>Gateway API synthesizer: HTTPRoute (pkg/migrator/gatewayapi/httproute.go)\<close>

definition buildHostnameSection :: "(nat \<Rightarrow> bool) \<Rightarrow> string list \<Rightarrow> string" where
  \<open>buildHostnameSection printable hosts =
     (if hosts = [] then ''''
      else ''  hostnames:\<newline>''
           @ goJoin (map (\<lambda>h. ''  - '' @ formatQ printable h) hosts) ''\<newline>'' @ ''\<newline>'')\<close>

definition pathHasRegexChars :: "string \<Rightarrow> bool" where
  "pathHasRegexChars path =
     list_ex (\<lambda>ch. goContains path ch) [''('', '')'', ''|'', ''['', '']'', ''{'', ''}'']"

definition buildPathMatch :: "PathInfo \<Rightarrow> gomap \<Rightarrow> string" where
  \<open>buildPathMatch path annotations =
     (let pathValue = (if Path path = '''' then ''/'' else Path path);
          useRegex = goHasKey annotations ''use-regex''
      in if useRegex \<or> pathHasRegexChars pathValue then
           ''path:\<newline>'' @ ''        type: RegularExpression\<newline>''
           @ ''        value: "'' @ pathValue @ ''"''
         else
           (let pathType = (if PathType path = ''Exact'' then ''Exact'' else ''PathPrefix'')
            in
               ''path:\<newline>'' @ ''        type: '' @ pathType @ ''\<newline>''
               @ ''        value: "'' @ pathValue @ ''"''))\<close>

definition buildHeaderMatches :: "gomap \<Rightarrow> string" where
  \<open>buildHeaderMatches annotations =
     (let header = goIndex annotations ''canary-by-header'';
          headerValue = goIndex annotations ''canary-by-header-value''
      in if header = '''' then ''''
         else if headerValue \<noteq> '''' then
           ''\<newline>'' @ ''      headers:\<newline>'' @ ''      - name: "'' @ header
           @ ''"\<newline>'' @ ''        value: "'' @ headerValue @ ''"''
         else
           ''\<newline>'' @ ''      headers:\<newline>'' @ ''      - name: "'' @ header
           @ ''"\<newline>'' @ ''        type: Present'')\<close>

definition getAnnotation :: "gomap \<Rightarrow> string \<Rightarrow> string \<Rightarrow> string" where
  "getAnnotation annotations key defaultVal =
     (case map_of annotations key of
        Some v \<Rightarrow> (if v \<noteq> '''' then v else defaultVal)
      | None \<Rightarrow> defaultVal)"

definition buildCORSFilter :: "gomap \<Rightarrow> string" where
  \<open>buildCORSFilter annotations =
     (let origin = getAnnotation annotations ''cors-allow-origin'' ''*'';
          methods = getAnnotation annotations ''cors-allow-methods''
                      ''GET, PUT, POST, DELETE, PATCH, OPTIONS'';
          headers = getAnnotation annotations ''cors-allow-headers''
                      ''Content-Type, Authorization'';
          credentials = getAnnotation annotations ''cors-allow-credentials'' ''true''
      in
        ''    - type: ResponseHeaderModifier\<newline>''
        @ ''      responseHeaderModifier:\<newline>'' @ ''        add:\<newline>''
        @ ''          - name: "Access-Control-Allow-Origin"\<newline>''
        @ ''            value: "'' @ origin @ ''"\<newline>''
        @ ''          - name: "Access-Control-Allow-Methods"\<newline>''
        @ ''            value: "'' @ methods @ ''"\<newline>''
        @ ''          - name: "Access-Control-Allow-Headers"\<newline>''
        @ ''            value: "'' @ headers @ ''"\<newline>''
        @ ''          - name: "Access-Control-Allow-Credentials"\<newline>''
        @ ''            value: "'' @ credentials @ ''"\<newline>'')\<close>

definition buildBackendFilters :: "gomap \<Rightarrow> string list" where
  \<open>buildBackendFilters annotations =
     (let target = goIndex annotations ''rewrite-target'';
          filters1 =
            (if goHasKey annotations ''rewrite-target'' \<and> target \<noteq> '''' then
               (if goHasKey annotations ''use-regex'' then
                  [
                   ''    - type: URLRewrite\<newline>'' @ ''      urlRewrite:\<newline>''
                   @ ''        path:\<newline>''
                   @ ''          type: ReplaceFullPath\<newline>''
                   @ ''          replaceFullPath: "'' @ target @ ''"\<newline>''
                   @ ''# NOTE: For regex captures like $1, manual conversion to ReplacePrefixMatch may be needed\<newline>'']
                else
                  [
                   ''    - type: URLRewrite\<newline>'' @ ''      urlRewrite:\<newline>''
                   @ ''        path:\<newline>''
                   @ ''          type: ReplaceFullPath\<newline>''
                   @ ''          replaceFullPath: "'' @ target @ ''"\<newline>''])
             else []);
          filters2 =
            (if goIndex annotations ''enable-cors'' = ''true''
             then filters1 @ [buildCORSFilter annotations] else filters1);
          filters3 =
            (if goHasKey annotations ''custom-headers'' then
               filters2 @ [
                 ''    - type: ResponseHeaderModifier\<newline>''
                 @ ''      responseHeaderModifier:\<newline>'' @ ''        add:\<newline>''
                 @ ''          - name: "X-Custom-Header"\<newline>''
                 @ ''            value: "value"\<newline>''
                 @ ''# NOTE: Populate headers from your ConfigMap reference in nginx annotation\<newline>'']
             else filters2)
      in filters3)\<close>

definition buildBackendRefs :: "PathInfo \<Rightarrow> bool \<Rightarrow> string \<Rightarrow> string" where
  \<open>buildBackendRefs path isCanary canaryWeight =
     (let port = (if ServicePort path = 0 then 80 else ServicePort path)
      in if isCanary \<and> canaryWeight \<noteq> '''' then
           ''    backendRefs:\<newline>'' @ ''    - name: '' @ ServiceName path
           @ ''\<newline>'' @ ''      port: '' @ formatD port @ ''\<newline>''
           @ ''      weight: '' @ canaryWeight @ ''\<newline>''
           @ ''    # NOTE: Add your stable backend below with weight = (100 - ''
           @ canaryWeight @ ''):\<newline>'' @ ''    # - name: stable-service\<newline>''
           @ ''    #   port: '' @ formatD port @ ''\<newline>''
           @ ''    #   weight:\<newline>''
         else
           ''    backendRefs:\<newline>'' @ ''    - name: '' @ ServiceName path
           @ ''\<newline>'' @ ''      port: '' @ formatD port @ ''\<newline>'')\<close>

definition buildTimeouts :: "gomap \<Rightarrow> string" where
  \<open>buildTimeouts annotations =
     (let readTimeout = goIndex annotations ''proxy-read-timeout''
      in if readTimeout = '''' then ''''
         else
           ''    timeouts:\<newline>'' @ ''      backendRequest: '' @ readTimeout
           @ ''s\<newline>'')\<close>

text \<open>
  The first loop of \<^verbatim>\<open>buildRedirectOnlyRules\<close> and of \<^verbatim>\<open>buildBackendOnlyRules\<close>
  groups the paths by host: \<^verbatim>\<open>hostOrder\<close> keeps the hosts in the order of their first
  path, \<^verbatim>\<open>hostPaths\<close> maps a host to its paths. The map is only indexed, never
  ranged over. The nested loops then visit the paths host by host.
\<close>

definition groupPathsStep ::
  "string list \<times> (string \<rightharpoonup> PathInfo list) \<Rightarrow> PathInfo
     \<Rightarrow> string list \<times> (string \<rightharpoonup> PathInfo list)" where
  "groupPathsStep st p =
     (case st of (hostOrder, hostPaths) \<Rightarrow>
        ((if hostPaths (Host p) = None then hostOrder @ [Host p] else hostOrder),
         hostPaths(Host p \<mapsto> (case hostPaths (Host p) of None \<Rightarrow> [] | Some ps \<Rightarrow> ps) @ [p])))"

definition groupPaths :: "PathInfo list \<Rightarrow> string list \<times> (string \<rightharpoonup> PathInfo list)" where
  "groupPaths ps = foldl groupPathsStep ([], Map.empty) ps"

definition pathsInRuleOrder :: "PathInfo list \<Rightarrow> PathInfo list" where
  "pathsInRuleOrder ps =
     (case groupPaths ps of (hostOrder, hostPaths) \<Rightarrow>
        concat (map (\<lambda>host. case hostPaths host of None \<Rightarrow> [] | Some qs \<Rightarrow> qs) hostOrder))"

text \<open>The match block that both loops put in front of a rule.\<close>

definition ruleMatch :: "PathInfo \<Rightarrow> gomap \<Rightarrow> string" where
  \<open>ruleMatch p annotations =
     (let pathMatch = buildPathMatch p annotations;
          headerMatches = buildHeaderMatches annotations;
          match =
            ''  - matches:\<newline>'' @ ''    - '' @ pathMatch
      in (if headerMatches \<noteq> '''' then match @ headerMatches else match) @ ''\<newline>'')\<close>

definition redirectFilter :: "int \<Rightarrow> string" where
  \<open>redirectFilter statusCode =
     ''    filters:\<newline>'' @ ''    - type: RequestRedirect\<newline>''
     @ ''      requestRedirect:\<newline>'' @ ''        scheme: https\<newline>''
     @ ''        statusCode: '' @ formatD statusCode @ ''\<newline>''\<close>

definition redirectRule :: "gomap \<Rightarrow> int \<Rightarrow> PathInfo \<Rightarrow> string" where
  "redirectRule annotations statusCode p = ruleMatch p annotations @ redirectFilter statusCode"

definition redirectRules :: "IngressInfo \<Rightarrow> int \<Rightarrow> string list" where
  "redirectRules ing statusCode =
     map (redirectRule (NginxAnnotations ing) statusCode) (pathsInRuleOrder (Paths ing))"

definition buildRedirectOnlyRules :: "IngressInfo \<Rightarrow> int \<Rightarrow> string" where
  "buildRedirectOnlyRules ing statusCode = goJoin (redirectRules ing statusCode) ''''"

definition filterSection :: "gomap \<Rightarrow> string" where
  \<open>filterSection annotations =
     (let filters = buildBackendFilters annotations
      in if length filters > 0 then ''    filters:\<newline>'' @ goJoin filters '''' else '''')\<close>

definition backendRule :: "gomap \<Rightarrow> PathInfo \<Rightarrow> string" where
  "backendRule annotations p =
     (let isCanary = (goIndex annotations ''canary'' = ''true'');
          canaryWeight = goIndex annotations ''canary-weight''
      in ruleMatch p annotations @ filterSection annotations
         @ buildBackendRefs p isCanary canaryWeight @ buildTimeouts annotations)"

definition backendRules :: "IngressInfo \<Rightarrow> gomap \<Rightarrow> string list" where
  "backendRules ing annotations = map (backendRule annotations) (pathsInRuleOrder (Paths ing))"

definition buildBackendOnlyRules :: "IngressInfo \<Rightarrow> gomap \<Rightarrow> string" where
  "buildBackendOnlyRules ing annotations = goJoin (backendRules ing annotations) ''''"

definition backendParentRef :: "string \<Rightarrow> string \<Rightarrow> string \<Rightarrow> string" where
  \<open>backendParentRef gatewayName gatewayNamespace sectionName =
     (let parentRef =
          ''  - name: '' @ gatewayName @ ''\<newline>'' @ ''    namespace: ''
          @ gatewayNamespace
      in if sectionName \<noteq> '''' then parentRef @
            ''\<newline>'' @ ''    sectionName: '' @ sectionName
         else parentRef)\<close>

definition generateSingleHTTPRoute ::
  "(nat \<Rightarrow> bool) \<Rightarrow> IngressInfo \<Rightarrow> string \<Rightarrow> string \<Rightarrow> string \<Rightarrow> string" where
  \<open>generateSingleHTTPRoute printable ing gatewayName gatewayNamespace sectionName =
     (let annotations = NginxAnnotations ing;
          parentRef = backendParentRef gatewayName gatewayNamespace sectionName;
          hostnameSection = buildHostnameSection printable (Hosts ing);
          rules = buildBackendOnlyRules ing annotations
      in
        ''apiVersion: gateway.networking.k8s.io/v1\<newline>''
        @ ''kind: HTTPRoute\<newline>'' @ ''metadata:\<newline>'' @ ''  name: '' @ Name ing
        @ ''\<newline>'' @ ''  namespace: '' @ Namespace ing @ ''\<newline>''
        @ ''spec:\<newline>'' @ ''  parentRefs:\<newline>'' @ parentRef @ ''\<newline>''
        @ hostnameSection @ ''  rules:\<newline>'' @ rules)\<close>

definition redirectParentRef :: "string \<Rightarrow> string \<Rightarrow> string" where
  \<open>redirectParentRef gatewayName gatewayNamespace =
     ''  - name: '' @ gatewayName @ ''\<newline>'' @ ''    namespace: '' @ gatewayNamespace
     @ ''\<newline>'' @ ''    sectionName: http''\<close>

definition redirectStatusCode :: "gomap \<Rightarrow> int" where
  "redirectStatusCode annotations =
     (if goIndex annotations ''ssl-redirect'' = ''true''
         \<and> goIndex annotations ''force-ssl-redirect'' \<noteq> ''true''
      then 302 else 301)"

definition httpsSectionName :: "IngressInfo \<Rightarrow> gomap \<Rightarrow> string" where
  "httpsSectionName ing hostnameToSection =
     (if length (Hosts ing) > 0 then goIndex hostnameToSection (hd (Hosts ing)) else '''')"

definition redirectRoute :: "(nat \<Rightarrow> bool) \<Rightarrow> IngressInfo \<Rightarrow> string \<Rightarrow> string \<Rightarrow> string" where
  \<open>redirectRoute printable ing gatewayName gatewayNamespace =
     (let statusCode = redirectStatusCode (NginxAnnotations ing);
          hostnameSection = buildHostnameSection printable (Hosts ing);
          redirectRules = buildRedirectOnlyRules ing statusCode
      in
        ''# HTTP'' @ [CHR 0xE2, CHR 0x86, CHR 0x92]
        @ ''HTTPS redirect route (attached to HTTP listener only)\<newline>''
        @ ''apiVersion: gateway.networking.k8s.io/v1\<newline>''
        @ ''kind: HTTPRoute\<newline>'' @ ''metadata:\<newline>'' @ ''  name: '' @ Name ing
        @ ''-redirect\<newline>'' @ ''  namespace: '' @ Namespace ing @ ''\<newline>''
        @ ''spec:\<newline>'' @ ''  parentRefs:\<newline>''
        @ redirectParentRef gatewayName gatewayNamespace @ ''\<newline>'' @ hostnameSection
        @ ''  rules:\<newline>'' @ redirectRules)\<close>

definition generateSplitHTTPRoutes ::
  "(nat \<Rightarrow> bool) \<Rightarrow> IngressInfo \<Rightarrow> string \<Rightarrow> string \<Rightarrow> gomap \<Rightarrow> string" where
  \<open>generateSplitHTTPRoutes printable ing gatewayName gatewayNamespace hostnameToSection =
     (let backendRoute =
            generateSingleHTTPRoute printable ing gatewayName gatewayNamespace
              (httpsSectionName ing hostnameToSection)
      in redirectRoute printable ing gatewayName gatewayNamespace @ ''---\<newline>'' @ backendRoute)\<close>

definition hasSSLRedirect :: "gomap \<Rightarrow> bool" where
  "hasSSLRedirect annotations =
     (goIndex annotations ''force-ssl-redirect'' = ''true''
      \<or> goIndex annotations ''ssl-redirect'' = ''true'')"

definition generateHTTPRoute ::
  "(nat \<Rightarrow> bool) \<Rightarrow> IngressInfo \<Rightarrow> string \<Rightarrow> string \<Rightarrow> gomap \<Rightarrow> string" where
  "generateHTTPRoute printable ing gatewayName gatewayNamespace hostnameToSection =
     (if hasSSLRedirect (NginxAnnotations ing)
      then generateSplitHTTPRoutes printable ing gatewayName gatewayNamespace hostnameToSection
      else generateSingleHTTPRoute printable ing gatewayName gatewayNamespace '''')"

section \<open>Gateway API synthesizer: the HTTPRoute files of \<^verbatim>\<open>Migrate\<close> (pkg/migrator/gatewayapi/migrator.go)\<close>

record GeneratedFile =
  RelPath :: string
  Content :: string
  Description :: string
  Category :: string

definition defaultGatewayName :: string where
  "defaultGatewayName = ''ing-switch-gateway''"

definition defaultGatewayNamespace :: string where
  "defaultGatewayNamespace = ''default''"

text \<open>An assignment \<^verbatim>\<open>m[k] = v\<close> and \<^verbatim>\<open>delete(m, k)\<close> on a Go map.\<close>

definition goStore :: "gomap \<Rightarrow> string \<Rightarrow> string \<Rightarrow> gomap" where
  "goStore m k v =
     (if goHasKey m k then map (\<lambda>kv. if fst kv = k then (k, v) else kv) m else m @ [(k, v)])"

definition goDelete :: "gomap \<Rightarrow> string \<Rightarrow> gomap" where
  "goDelete m k = filter (\<lambda>kv. fst kv \<noteq> k) m"

text \<open>\<^verbatim>\<open>buildHostnameToSection\<close>: the state of the two loops is the map with the
  running listener index; the inner loop runs once for each TLS secret.\<close>

definition hostnameToSectionSecret :: "IngressInfo \<Rightarrow> gomap \<times> int \<Rightarrow> gomap \<times> int" where
  "hostnameToSectionSecret ing st =
     (case st of (m, idx) \<Rightarrow>
        ((if length (Hosts ing) > 0
          then goStore m (hd (Hosts ing)) (''https-'' @ formatD idx) else m),
         idx + 1))"

definition hostnameToSectionIngress :: "gomap \<times> int \<Rightarrow> IngressInfo \<Rightarrow> gomap \<times> int" where
  "hostnameToSectionIngress st ing =
     (if TLSEnabled ing \<and> length (TLSSecrets ing) > 0
      then foldl (\<lambda>s secret. hostnameToSectionSecret ing s) st (TLSSecrets ing)
      else st)"

definition buildHostnameToSection :: "ScanResult \<Rightarrow> gomap" where
  "buildHostnameToSection scan = fst (foldl hostnameToSectionIngress ([], 0) (Ingresses scan))"

text \<open>Step 4 of \<^verbatim>\<open>Migrate\<close>: one file for each ingress of the scan.\<close>

definition httpRouteFile :: "(nat \<Rightarrow> bool) \<Rightarrow> gomap \<Rightarrow> IngressInfo \<Rightarrow> GeneratedFile" where
  "httpRouteFile printable hostnameToSection ing =
     \<lparr>RelPath = ''04-httproutes/'' @ Namespace ing @ ''-'' @ Name ing @ ''.yaml'',
      Content = generateHTTPRoute printable ing defaultGatewayName defaultGatewayNamespace hostnameToSection,
      Description = ''HTTPRoute for '' @ Namespace ing @ ''/'' @ Name ing,
      Category = ''httproute''\<rparr>"

definition migrateHTTPRoutes :: "(nat \<Rightarrow> bool) \<Rightarrow> ScanResult \<Rightarrow> GeneratedFile list" where
  "migrateHTTPRoutes printable scan =
     (let hostnameToSection = buildHostnameToSection scan
      in map (httpRouteFile printable hostnameToSection) (Ingresses scan))"

section \<open>Traefik synthesizer: the updated Ingress (pkg/migrator/traefik/migrator.go)\<close>

definition copyAnnotations :: "gomap \<Rightarrow> gomap" where
  "copyAnnotations src = foldl (\<lambda>dst kv. goStore dst (fst kv) (snd kv)) [] src"

definition toRemove :: "string list" where
  "toRemove = [
     ''nginx.ingress.kubernetes.io/ssl-redirect'',
     ''nginx.ingress.kubernetes.io/force-ssl-redirect'',
     ''nginx.ingress.kubernetes.io/enable-cors'',
     ''nginx.ingress.kubernetes.io/cors-allow-origin'',
     ''nginx.ingress.kubernetes.io/cors-allow-methods'',
     ''nginx.ingress.kubernetes.io/cors-allow-headers'',
     ''nginx.ingress.kubernetes.io/cors-expose-headers'',
     ''nginx.ingress.kubernetes.io/cors-allow-credentials'',
     ''nginx.ingress.kubernetes.io/cors-max-age'',
     ''nginx.ingress.kubernetes.io/auth-url'',
     ''nginx.ingress.kubernetes.io/auth-response-headers'',
     ''nginx.ingress.kubernetes.io/auth-method'',
     ''nginx.ingress.kubernetes.io/limit-rps'',
     ''nginx.ingress.kubernetes.io/limit-rpm'',
     ''nginx.ingress.kubernetes.io/limit-connections'',
     ''nginx.ingress.kubernetes.io/whitelist-source-range'',
     ''nginx.ingress.kubernetes.io/denylist-source-range'',
     ''nginx.ingress.kubernetes.io/rewrite-target'',
     ''nginx.ingress.kubernetes.io/use-regex'']"

text \<open>The annotation map of the updated Ingress, before it is printed.\<close>

definition updatedAnnotations :: "IngressInfo \<Rightarrow> string list \<Rightarrow> gomap" where
  "updatedAnnotations ing middlewareNames =
     (let annotations = foldl goDelete (copyAnnotations (Annotations ing)) toRemove
      in if length middlewareNames > 0
         then goStore annotations ''traefik.ingress.kubernetes.io/router.middlewares''
                (goJoin middlewareNames '','')
         else annotations)"

text \<open>
  \<^verbatim>\<open>generateUpdatedIngress\<close> ranges over the map it has just built, and
  \<^verbatim>\<open>buildRulesSection\<close> over its own \<^verbatim>\<open>hostPaths\<close>: the keys in the order in which
  the runtime visits them are the arguments \<open>annVisit\<close> and \<open>hostVisit\<close>. A visit is
  a permutation of the keys of the map.
\<close>

definition visitsKeys :: "string list \<Rightarrow> string list \<Rightarrow> bool" where
  "visitsKeys keys visit = (distinct visit \<and> set visit = set keys)"

definition hostListForTLS :: "IngressInfo \<Rightarrow> string" where
  \<open>hostListForTLS ing = goJoin (map (\<lambda>h. ''    - '' @ h) (Hosts ing)) ''\<newline>''\<close>

definition rulePathLine :: "PathInfo \<Rightarrow> string" where
  \<open>rulePathLine p =
     (let pathType = (if PathType p = '''' then ''Prefix'' else PathType p);
          path = (if Path p = '''' then ''/'' else Path p)
      in
        ''      - path: '' @ path @ ''\<newline>'' @ ''        pathType: '' @ pathType
        @ ''\<newline>'' @ ''        backend:\<newline>'' @ ''          service:\<newline>''
        @ ''            name: '' @ ServiceName p @ ''\<newline>''
        @ ''            port:\<newline>'' @ ''              number: ''
        @ formatD (ServicePort p) @ ''\<newline>'')\<close>

definition hostPathsOf :: "PathInfo list \<Rightarrow> (string \<rightharpoonup> PathInfo list)" where
  "hostPathsOf ps =
     foldl (\<lambda>hostPaths p.
              hostPaths(Host p \<mapsto> (case hostPaths (Host p) of None \<Rightarrow> [] | Some qs \<Rightarrow> qs) @ [p]))
       Map.empty ps"

definition hostRule :: "string \<Rightarrow> PathInfo list \<Rightarrow> string" where
  \<open>hostRule host paths =
     (let hostLine = (if host \<noteq> '''' then ''  - host: '' @ host @ ''\<newline>''
                      else ''  - {}\<newline>'');
          httpLines = foldl (\<lambda>acc p. acc @ rulePathLine p)
                        (''    http:\<newline>'' @ ''      paths:\<newline>'') paths
      in hostLine @ httpLines)\<close>

definition buildRulesSection :: "string list \<Rightarrow> IngressInfo \<Rightarrow> string" where
  "buildRulesSection hostVisit ing =
     (let hostPaths = hostPathsOf (Paths ing)
      in goJoin (map (\<lambda>host. hostRule host
                               (case hostPaths host of None \<Rightarrow> [] | Some qs \<Rightarrow> qs)) hostVisit) '''')"

definition generateUpdatedIngress ::
  "(nat \<Rightarrow> bool) \<Rightarrow> string list \<Rightarrow> string list \<Rightarrow> IngressInfo \<Rightarrow> string list \<Rightarrow> string" where
  \<open>generateUpdatedIngress printable annVisit hostVisit ing middlewareNames =
     (let annotations = updatedAnnotations ing middlewareNames;
          annotationLines =
            map (\<lambda>k. ''    '' @ k @ '': '' @ formatQ printable (goIndex annotations k)) annVisit;
          tlsSection =
            foldl (\<lambda>acc secret. acc @
                ''  - hosts:\<newline>'' @ hostListForTLS ing @ ''\<newline>''
                @ ''    secretName: '' @ secret @ ''\<newline>'')
              '''' (TLSSecrets ing);
          rulesSection = buildRulesSection hostVisit ing;
          ingressClass = (if IngressClass ing = '''' then ''nginx'' else IngressClass ing);
          yaml =
            ''apiVersion: networking.k8s.io/v1\<newline>'' @ ''kind: Ingress\<newline>''
            @ ''metadata:\<newline>'' @ ''  name: '' @ Name ing @ ''\<newline>''
            @ ''  namespace: '' @ Namespace ing @ ''\<newline>''
            @ ''  annotations:\<newline>'' @ goJoin annotationLines ''\<newline>''
            @ ''\<newline>'' @ ''spec:\<newline>'' @ ''  ingressClassName: '' @ ingressClass
            @ ''\<newline>'' @ ''  rules:\<newline>'' @ rulesSection;
          yaml' = (if tlsSection \<noteq> '''' then yaml @ ''  tls:\<newline>'' @ tlsSection else yaml)
      in yaml' @ ''\<newline>'')\<close>

section \<open>Entry points of the classifier (cmd/analyze.go, the API handler)\<close>

text \<open>The cluster is the outcome of \<^verbatim>\<open>scanner.NewScanner\<close> followed by \<^verbatim>\<open>Scan\<close>; the
  rendering of the report on the terminal or as JSON is left out.\<close>

datatype cluster = ConnectFails string | ScanFails string | Scanned ScanResult

datatype cmd_error = UnknownTarget string | TargetRequired | ConnectError string | ScanError string

definition runAnalyze :: "string \<Rightarrow> cluster \<Rightarrow> cmd_error + AnalysisReport" where
  "runAnalyze analyzeTarget cl =
     (if analyzeTarget = ''traefik'' \<or> analyzeTarget = ''gateway-api'' then
        (case cl of
           ConnectFails e \<Rightarrow> Inl (ConnectError e)
         | ScanFails e \<Rightarrow> Inl (ScanError e)
         | Scanned scanResult \<Rightarrow> Inr (Analyze analyzeTarget scanResult))
      else Inl (UnknownTarget analyzeTarget))"

text \<open>\<^verbatim>\<open>HandleAnalyze\<close> on a request that is not an OPTIONS request.\<close>

definition HandleAnalyze :: "string \<Rightarrow> cluster \<Rightarrow> cmd_error + AnalysisReport" where
  "HandleAnalyze target cl =
     (if target = '''' then Inl TargetRequired
      else (case cl of
              ConnectFails e \<Rightarrow> Inl (ConnectError e)
            | ScanFails e \<Rightarrow> Inl (ScanError e)
            | Scanned scanResult \<Rightarrow> Inr (Analyze target scanResult)))"

section \<open>The mapping table of the dashboard (web/src/components/AnnotationMatrix.tsx)\<close>

text \<open>The component sorts a copy of the mappings of a report with the comparison
  \<^verbatim>\<open>sortOrder[a.status] - sortOrder[b.status]\<close>; the sort of an array is stable.\<close>

definition sortOrder :: "MappingStatus \<Rightarrow> nat" where
  "sortOrder s = (case s of StatusUnsupported \<Rightarrow> 0 | StatusPartial \<Rightarrow> 1 | StatusSupported \<Rightarrow> 2)"

definition sortedMappings :: "AnnotationMapping list \<Rightarrow> AnnotationMapping list" where
  "sortedMappings ms = sort_key (\<lambda>m. sortOrder (Status m)) ms"

section \<open>Validation phase (pkg/server/validate.go)\<close>

text \<open>The phase switch of \<^verbatim>\<open>runRichValidation\<close>: the two fields it sets, from the two
  facts \<^verbatim>\<open>targetRunning\<close> and \<^verbatim>\<open>nginxPresent\<close>.\<close>

record RichValidationPhase =
  Phase :: string
  PhaseDesc :: string

definition nginxPresentOf :: "ScanResult \<Rightarrow> bool" where
  "nginxPresentOf sr = (Detected (Controller sr) \<and> Type (Controller sr) = ''ingress-nginx'')"

definition migrationPhase :: "bool \<Rightarrow> bool \<Rightarrow> RichValidationPhase" where
  "migrationPhase targetRunning nginxPresent =
     (if targetRunning \<and> \<not> nginxPresent then
        \<lparr>Phase = ''post-migration'',
         PhaseDesc = ''Target controller is active. NGINX has been removed. Migration complete.''\<rparr>
      else if targetRunning \<and> nginxPresent then
        \<lparr>Phase = ''migrating'',
         PhaseDesc = ''Both NGINX and target controller are running. Zero-downtime parallel migration in progress.''\<rparr>
      else
        \<lparr>Phase = ''pre-migration'',
         PhaseDesc = ''NGINX is handling all traffic. Target controller not yet installed.''\<rparr>)"

section \<open>Gateway API synthesizer: the Gateway and its listeners (package gatewayapi)\<close>

record tlsEntry =
  te_hosts :: "string list"
  te_secretName :: string
  te_namespace :: string

text \<open>The first loop of \<^verbatim>\<open>generateGateway\<close>: one entry for each TLS secret of each
  TLS-enabled ingress, in the order of the scan.\<close>

definition tlsEntriesOf :: "IngressInfo \<Rightarrow> tlsEntry list" where
  "tlsEntriesOf ing =
     (if TLSEnabled ing \<and> length (TLSSecrets ing) > 0
      then map (\<lambda>secret. \<lparr>te_hosts = Hosts ing, te_secretName = secret,
                             te_namespace = Namespace ing\<rparr>) (TLSSecrets ing)
      else [])"

definition tlsEntries :: "ScanResult \<Rightarrow> tlsEntry list" where
  "tlsEntries scan = concat (map tlsEntriesOf (Ingresses scan))"

definition buildHostnameList :: "string list \<Rightarrow> string" where
  \<open>buildHostnameList hosts =
     (if length hosts = 0 then ''''
      else
        ''    hostname: "'' @ hd hosts @ ''"\<newline>'')\<close>

text \<open>The text of the listener with index \<open>i\<close>, of the second loop.\<close>

definition tlsListener :: "nat \<Rightarrow> tlsEntry \<Rightarrow> string" where
  \<open>tlsListener i tls =
     (let hosts = buildHostnameList (te_hosts tls)
      in
        ''  - name: https-'' @ formatD (int i) @ ''\<newline>''
        @ ''    protocol: HTTPS\<newline>'' @ ''    port: 443\<newline>'' @ hosts
        @ ''    tls:\<newline>'' @ ''      mode: Terminate\<newline>''
        @ ''      certificateRefs:\<newline>'' @ ''      - name: '' @ te_secretName tls
        @ ''\<newline>'' @ ''        namespace: '' @ te_namespace tls @ ''\<newline>''
        @ ''    allowedRoutes:\<newline>'' @ ''      namespaces:\<newline>''
        @ ''        from: All\<newline>'')\<close>

definition generateGateway :: "ScanResult \<Rightarrow> string" where
  \<open>generateGateway scan =
     (let entries = tlsEntries scan;
          tlsListeners = concat (map (\<lambda>ie. tlsListener (fst ie) (snd ie)) (enumerate 0 entries));
          tlsListeners' =
            (if tlsListeners = '''' then
               ''  - name: https\<newline>'' @ ''    protocol: HTTPS\<newline>''
               @ ''    port: 443\<newline>'' @ ''    # Add TLS configuration:\<newline>''
               @ ''    # tls:\<newline>'' @ ''    #   mode: Terminate\<newline>''
               @ ''    #   certificateRefs:\<newline>''
               @ ''    #   - name: your-tls-secret\<newline>''
               @ ''    #     namespace: your-namespace\<newline>''
             else tlsListeners)
      in
        ''apiVersion: gateway.networking.k8s.io/v1\<newline>'' @ ''kind: Gateway\<newline>''
        @ ''metadata:\<newline>'' @ ''  name: '' @ defaultGatewayName @ ''\<newline>''
        @ ''  namespace: '' @ defaultGatewayNamespace @ ''\<newline>'' @ ''spec:\<newline>''
        @ ''  gatewayClassName: eg\<newline>'' @ ''  listeners:\<newline>''
        @ ''  - name: http\<newline>'' @ ''    protocol: HTTP\<newline>''
        @ ''    port: 80\<newline>'' @ ''    allowedRoutes:\<newline>''
        @ ''      namespaces:\<newline>'' @ ''        from: All\<newline>'' @ tlsListeners')\<close>

section \<open>Notions used to state the properties\<close>

text \<open>The report that the classifier gives for a route when the target is unknown.\<close>

definition unknownTargetReport :: "IngressInfo \<Rightarrow> IngressReport" where
  "unknownTargetReport ing =
     \<lparr>ir_Namespace = Namespace ing, ir_Name = Name ing,
      Mappings = map (\<lambda>kv. \<lparr>OriginalKey = fst kv, OriginalValue = snd kv,
                             Status = StatusUnsupported, TargetResource = '''',
                             GeneratedYAML = '''', Note = ''Unknown target''\<rparr>)
                   (NginxAnnotations ing),
      OverallStatus = (if NginxAnnotations ing = [] then ''ready'' else ''breaking'')\<rparr>"

text \<open>The text of a path match of type \<open>RegularExpression\<close>, and what such a match
  starts with.\<close>

definition regexPathMatch :: "string \<Rightarrow> string" where
  \<open>regexPathMatch v =
     ''path:\<newline>'' @ ''        type: RegularExpression\<newline>'' @ ''        value: "'' @ v @ ''"''\<close>

definition plainPathMatch :: "string \<Rightarrow> string \<Rightarrow> string" where
  \<open>plainPathMatch t v =
     ''path:\<newline>'' @ ''        type: '' @ t @ ''\<newline>'' @ ''        value: "'' @ v @ ''"''\<close>

definition emitsRegularExpression :: "string \<Rightarrow> bool" where
  \<open>emitsRegularExpression s =
     (take 38 s = ''path:\<newline>'' @ ''        type: RegularExpression\<newline>'')\<close>

text \<open>The first line of a block of the manifest: the type line of a filter, the key
  line of a section.\<close>

definition firstLine :: "string \<Rightarrow> string" where
  \<open>firstLine s = takeWhile (\<lambda>c. c \<noteq> CHR ''\<newline>'') s\<close>

section \<open>Concrete inputs\<close>

definition noController :: ControllerInfo where
  "noController = \<lparr>Detected = False, Type = '''', Version = '''', ci_Namespace = '''', PodName = ''''\<rparr>"

definition payPath :: PathInfo where
  "payPath = \<lparr>Host = ''shop.example.com'', Path = ''/pay'', PathType = ''Prefix'',
               ServiceName = ''pay'', ServicePort = 8080\<rparr>"

text \<open>The route of the scenario: \<open>shop/checkout\<close>, one host, one path, no TLS secret.\<close>

definition checkout :: IngressInfo where
  "checkout =
     \<lparr>Namespace = ''shop'', Name = ''checkout'', IngressClass = ''nginx'',
      Hosts = [''shop.example.com''], Paths = [payPath],
      TLSEnabled = False, TLSSecrets = [],
      Annotations = [(''nginx.ingress.kubernetes.io/ssl-redirect'', ''true''),
                     (''nginx.ingress.kubernetes.io/limit-rps'', ''50'')],
      NginxAnnotations = [(''ssl-redirect'', ''true''), (''limit-rps'', ''50'')],
      Services = [], Complexity = ''simple''\<rparr>"

text \<open>The same route with a TLS secret.\<close>

definition checkoutTLS :: IngressInfo where
  "checkoutTLS = checkout\<lparr>TLSEnabled := True, TLSSecrets := [''shop-tls'']\<rparr>"

text \<open>A route with one supported, one partial and one unsupported annotation for
  Traefik, and the same route as a second run visits its annotation map.\<close>

definition mixed :: IngressInfo where
  "mixed = checkout\<lparr>Name := ''mixed'',
     NginxAnnotations := [(''ssl-redirect'', ''true''), (''auth-method'', ''GET''),
                          (''server-snippet'', ''return 200;'')]\<rparr>"

definition mixedOtherOrder :: IngressInfo where
  "mixedOtherOrder = checkout\<lparr>Name := ''mixed'',
     NginxAnnotations := [(''server-snippet'', ''return 200;''), (''ssl-redirect'', ''true''),
                          (''auth-method'', ''GET'')]\<rparr>"

definition plain :: IngressInfo where
  "plain = checkout\<lparr>Name := ''plain'', Annotations := [], NginxAnnotations := []\<rparr>"

definition scanOf :: "IngressInfo list \<Rightarrow> ScanResult" where
  "scanOf ings = \<lparr>ClusterName = ''demo'', Controller = noController, Ingresses = ings,
                  Namespaces = [''shop'']\<rparr>"


text \<open>A route that keeps two annotations in its updated Ingress.\<close>

definition upload :: IngressInfo where
  "upload = checkout\<lparr>Name := ''upload'',
     Annotations := [(''kubernetes.io/ingress.class'', ''nginx''),
                     (''nginx.ingress.kubernetes.io/proxy-body-size'', ''8m'')],
     NginxAnnotations := [(''proxy-body-size'', ''8m'')]\<rparr>"

text \<open>A table of printable runes that holds no rune above \<open>U+00FF\<close>. The inputs of
  this section are ASCII, for which no table is read.\<close>

definition latin1Only :: "nat \<Rightarrow> bool" where
  "latin1Only r = False"

section \<open>Properties of the classifier\<close>

lemma analyzeIngressStep_eq:
  "analyzeIngressStep target (ms, u, p) kv =
     (ms @ [MapAnnotation (fst kv) (snd kv) target],
      u \<or> Status (MapAnnotation (fst kv) (snd kv) target) = StatusUnsupported,
      p \<or> Status (MapAnnotation (fst kv) (snd kv) target) = StatusPartial)"
  by (cases "Status (MapAnnotation (fst kv) (snd kv) target)")
     (simp_all add: analyzeIngressStep_def Let_def)

lemma analyzeIngress_foldl:
  "foldl (analyzeIngressStep target) (ms, u, p) kvs =
     (ms @ map (\<lambda>kv. MapAnnotation (fst kv) (snd kv) target) kvs,
      u \<or> (\<exists>kv \<in> set kvs. Status (MapAnnotation (fst kv) (snd kv) target) = StatusUnsupported),
      p \<or> (\<exists>kv \<in> set kvs. Status (MapAnnotation (fst kv) (snd kv) target) = StatusPartial))"
proof (induction kvs arbitrary: ms u p)
  case Nil
  show ?case by simp
next
  case (Cons kv kvs)
  have "foldl (analyzeIngressStep target) (ms, u, p) (kv # kvs) =
          foldl (analyzeIngressStep target) (analyzeIngressStep target (ms, u, p) kv) kvs"
    by simp
  also have "\<dots> = foldl (analyzeIngressStep target)
          (ms @ [MapAnnotation (fst kv) (snd kv) target],
           u \<or> Status (MapAnnotation (fst kv) (snd kv) target) = StatusUnsupported,
           p \<or> Status (MapAnnotation (fst kv) (snd kv) target) = StatusPartial) kvs"
    by (simp only: analyzeIngressStep_eq)
  finally show ?case
    by (auto simp: Cons.IH)
qed

lemma Mappings_analyzeIngress:
  "Mappings (analyzeIngress target ing) =
     map (\<lambda>kv. MapAnnotation (fst kv) (snd kv) target) (NginxAnnotations ing)"
  by (simp add: analyzeIngress_def analyzeIngress_foldl)

lemma OverallStatus_analyzeIngress:
  "OverallStatus (analyzeIngress target ing) =
     (if \<exists>kv \<in> set (NginxAnnotations ing).
           Status (MapAnnotation (fst kv) (snd kv) target) = StatusUnsupported
      then ''breaking''
      else if \<exists>kv \<in> set (NginxAnnotations ing).
                Status (MapAnnotation (fst kv) (snd kv) target) = StatusPartial
      then ''workaround'' else ''ready'')"
  by (simp add: analyzeIngress_def analyzeIngress_foldl)

lemma OverallStatus_cases:
  "OverallStatus (analyzeIngress target ing) = ''ready''
   \<or> OverallStatus (analyzeIngress target ing) = ''workaround''
   \<or> OverallStatus (analyzeIngress target ing) = ''breaking''"
  by (simp add: OverallStatus_analyzeIngress)

text \<open>The classifier run on the route \<open>mixed\<close>, in the two visiting orders.\<close>

lemma mixed_mappings:
  "Mappings (analyzeIngress ''traefik'' mixed) =
     [\<lparr>OriginalKey = ''ssl-redirect'', OriginalValue = ''true'', Status = StatusSupported,
       TargetResource = ''Middleware (RedirectScheme)'', GeneratedYAML = '''',
       Note = ''Generates RedirectScheme middleware''\<rparr>,
      \<lparr>OriginalKey = ''auth-method'', OriginalValue = ''GET'', Status = StatusPartial,
       TargetResource = ''Middleware (ForwardAuth)'', GeneratedYAML = '''',
       Note = ''Only GET/POST supported''\<rparr>,
      \<lparr>OriginalKey = ''server-snippet'', OriginalValue = ''return 200;'',
       Status = StatusUnsupported, TargetResource = '''', GeneratedYAML = '''',
       Note = ''NGINX-specific; intentionally not supported''\<rparr>]"
  by code_simp

lemma mixedOtherOrder_mappings:
  "Mappings (analyzeIngress ''traefik'' mixedOtherOrder) =
     [\<lparr>OriginalKey = ''server-snippet'', OriginalValue = ''return 200;'',
       Status = StatusUnsupported, TargetResource = '''', GeneratedYAML = '''',
       Note = ''NGINX-specific; intentionally not supported''\<rparr>,
      \<lparr>OriginalKey = ''ssl-redirect'', OriginalValue = ''true'', Status = StatusSupported,
       TargetResource = ''Middleware (RedirectScheme)'', GeneratedYAML = '''',
       Note = ''Generates RedirectScheme middleware''\<rparr>,
      \<lparr>OriginalKey = ''auth-method'', OriginalValue = ''GET'', Status = StatusPartial,
       TargetResource = ''Middleware (ForwardAuth)'', GeneratedYAML = '''',
       Note = ''Only GET/POST supported''\<rparr>]"
  by code_simp

text \<open>
  C2. The overall status of a route is \<open>breaking\<close> when at least one of its mappings
  is unsupported, otherwise \<open>workaround\<close> when at least one is partial, otherwise
  \<open>ready\<close>: one unsupported mapping decides, whatever the other mappings are.
\<close>

theorem overallStatus_precedence:
  "OverallStatus (analyzeIngress target ing) =
     (if \<exists>m \<in> set (Mappings (analyzeIngress target ing)). Status m = StatusUnsupported
      then ''breaking''
      else if \<exists>m \<in> set (Mappings (analyzeIngress target ing)). Status m = StatusPartial
      then ''workaround'' else ''ready'')"
  by (simp add: OverallStatus_analyzeIngress Mappings_analyzeIngress)

theorem overallStatus_precedence_witness:
  "map Status (Mappings (analyzeIngress ''traefik'' mixed))
     = [StatusSupported, StatusPartial, StatusUnsupported]
   \<and> (\<exists>m \<in> set (Mappings (analyzeIngress ''traefik'' mixed)). Status m = StatusUnsupported)
   \<and> OverallStatus (analyzeIngress ''traefik'' mixed) = ''breaking''"
  using overallStatus_precedence [of "''traefik''" mixed]
  by (simp add: mixed_mappings)

lemma analyzeStep_reports:
  "IngressReports (analyzeStep target r ing) = IngressReports r @ [analyzeIngress target ing]"
  by (simp add: analyzeStep_def Let_def)

lemma analyzeStep_target: "Target (analyzeStep target r ing) = Target r"
  by (simp add: analyzeStep_def Let_def)

lemma analyzeStep_total:
  "Total (Summary (analyzeStep target r ing)) = Total (Summary r) + 1"
  by (simp add: analyzeStep_def Let_def)

lemma analyzeStep_ready:
  "FullyCompatible (Summary (analyzeStep target r ing)) =
     FullyCompatible (Summary r)
       + (if OverallStatus (analyzeIngress target ing) = ''ready'' then 1 else 0)"
  by (simp add: analyzeStep_def Let_def)

lemma analyzeStep_workaround:
  "NeedsWorkaround (Summary (analyzeStep target r ing)) =
     NeedsWorkaround (Summary r)
       + (if OverallStatus (analyzeIngress target ing) = ''workaround'' then 1 else 0)"
  by (simp add: analyzeStep_def Let_def)

lemma analyzeStep_breaking:
  "HasUnsupported (Summary (analyzeStep target r ing)) =
     HasUnsupported (Summary r)
       + (if OverallStatus (analyzeIngress target ing) = ''breaking'' then 1 else 0)"
  by (simp add: analyzeStep_def Let_def)

lemmas analyzeStep_fields =
  analyzeStep_reports analyzeStep_target analyzeStep_total analyzeStep_ready
  analyzeStep_workaround analyzeStep_breaking

text \<open>What the loop of \<^verbatim>\<open>Analyze\<close> has computed after any number of turns.\<close>

lemma analyze_foldl:
  "IngressReports (foldl (analyzeStep target) r ings)
     = IngressReports r @ map (analyzeIngress target) ings
   \<and> Target (foldl (analyzeStep target) r ings) = Target r
   \<and> Total (Summary (foldl (analyzeStep target) r ings)) = Total (Summary r) + length ings
   \<and> FullyCompatible (Summary (foldl (analyzeStep target) r ings))
       = FullyCompatible (Summary r)
         + length (filter (\<lambda>ing. OverallStatus (analyzeIngress target ing) = ''ready'') ings)
   \<and> NeedsWorkaround (Summary (foldl (analyzeStep target) r ings))
       = NeedsWorkaround (Summary r)
         + length (filter (\<lambda>ing. OverallStatus (analyzeIngress target ing) = ''workaround'') ings)
   \<and> HasUnsupported (Summary (foldl (analyzeStep target) r ings))
       = HasUnsupported (Summary r)
         + length (filter (\<lambda>ing. OverallStatus (analyzeIngress target ing) = ''breaking'') ings)"
proof (induction ings arbitrary: r)
  case Nil
  show ?case by simp
next
  case (Cons ing ings)
  show ?case
    using Cons.IH [of "analyzeStep target r ing"]
    by (simp add: analyzeStep_fields)
qed

lemma IngressReports_Analyze:
  "IngressReports (Analyze target scan) = map (analyzeIngress target) (Ingresses scan)"
  using analyze_foldl [of target _ "Ingresses scan"] by (simp add: Analyze_def)

lemma status_partition:
  "length (filter (\<lambda>ing. OverallStatus (analyzeIngress target ing) = ''ready'') ings)
   + length (filter (\<lambda>ing. OverallStatus (analyzeIngress target ing) = ''workaround'') ings)
   + length (filter (\<lambda>ing. OverallStatus (analyzeIngress target ing) = ''breaking'') ings)
   = length ings"
proof (induction ings)
  case Nil
  show ?case by simp
next
  case (Cons ing ings)
  from OverallStatus_cases [of target ing] Cons.IH show ?case
    by auto
qed

text \<open>
  C10. In every report of \<^verbatim>\<open>Analyze\<close> the total equals the number of per-route
  reports and the sum of the three counters, each route having exactly one of the
  three overall statuses.
\<close>

theorem analyze_summary_total:
  "Total (Summary (Analyze target scan)) = length (IngressReports (Analyze target scan))
   \<and> Total (Summary (Analyze target scan))
       = FullyCompatible (Summary (Analyze target scan))
         + NeedsWorkaround (Summary (Analyze target scan))
         + HasUnsupported (Summary (Analyze target scan))
   \<and> (\<forall>ir \<in> set (IngressReports (Analyze target scan)).
         OverallStatus ir = ''ready'' \<or> OverallStatus ir = ''workaround''
         \<or> OverallStatus ir = ''breaking'')"
proof -
  let ?init = "\<lparr>Target = target, IngressReports = [],
     Summary = \<lparr>Total = 0, FullyCompatible = 0, NeedsWorkaround = 0, HasUnsupported = 0\<rparr>\<rparr>"
  note f = analyze_foldl [of target ?init "Ingresses scan"]
  have total: "Total (Summary (Analyze target scan)) = length (Ingresses scan)"
    using f by (simp add: Analyze_def)
  have len: "length (IngressReports (Analyze target scan)) = length (Ingresses scan)"
    by (simp add: IngressReports_Analyze)
  have sum: "FullyCompatible (Summary (Analyze target scan))
         + NeedsWorkaround (Summary (Analyze target scan))
         + HasUnsupported (Summary (Analyze target scan)) = length (Ingresses scan)"
    using f status_partition [of target "Ingresses scan"] by (simp add: Analyze_def)
  have each: "\<forall>ir \<in> set (IngressReports (Analyze target scan)).
         OverallStatus ir = ''ready'' \<or> OverallStatus ir = ''workaround''
         \<or> OverallStatus ir = ''breaking''"
    using OverallStatus_cases [of target] by (auto simp: IngressReports_Analyze)
  from total len sum each show ?thesis by simp
qed

theorem analyze_summary_total_witness:
  "length (IngressReports (Analyze ''traefik'' (scanOf [mixed, plain, checkout]))) = 3
   \<and> Total (Summary (Analyze ''traefik'' (scanOf [mixed, plain, checkout]))) = 3
   \<and> FullyCompatible (Summary (Analyze ''traefik'' (scanOf [mixed, plain, checkout])))
       + NeedsWorkaround (Summary (Analyze ''traefik'' (scanOf [mixed, plain, checkout])))
       + HasUnsupported (Summary (Analyze ''traefik'' (scanOf [mixed, plain, checkout]))) = 3"
  using analyze_summary_total [of "''traefik''" "scanOf [mixed, plain, checkout]"]
  by (simp add: IngressReports_Analyze scanOf_def)

lemma MapAnnotation_unknown_target:
  "target \<noteq> ''traefik'' \<Longrightarrow> target \<noteq> ''gateway-api'' \<Longrightarrow>
   MapAnnotation key val target =
     \<lparr>OriginalKey = key, OriginalValue = val, Status = StatusUnsupported,
      TargetResource = '''', GeneratedYAML = '''', Note = ''Unknown target''\<rparr>"
  by (simp add: MapAnnotation_def)

lemma analyzeIngress_unknown_target:
  assumes "target \<noteq> ''traefik''" and "target \<noteq> ''gateway-api''"
  shows "analyzeIngress target ing = unknownTargetReport ing"
proof -
  have m: "Mappings (analyzeIngress target ing) = Mappings (unknownTargetReport ing)"
    using assms
    by (simp add: Mappings_analyzeIngress unknownTargetReport_def MapAnnotation_unknown_target)
  have s: "OverallStatus (analyzeIngress target ing) = OverallStatus (unknownTargetReport ing)"
    using assms
    by (cases "NginxAnnotations ing")
       (auto simp: OverallStatus_analyzeIngress unknownTargetReport_def
          MapAnnotation_unknown_target)
  have n: "ir_Namespace (analyzeIngress target ing) = ir_Namespace (unknownTargetReport ing)"
          "ir_Name (analyzeIngress target ing) = ir_Name (unknownTargetReport ing)"
    by (simp_all add: analyzeIngress_def unknownTargetReport_def split: prod.splits)
  from m s n show ?thesis by simp
qed

text \<open>
  C6, as the code has it. A target other than \<open>traefik\<close> and \<open>gateway-api\<close> is
  rejected by the command \<^verbatim>\<open>runAnalyze\<close>, whatever the cluster holds. The classifier
  itself does not reject it, and the API handler passes every non-empty target on:
  \<^verbatim>\<open>Analyze\<close> returns a report with one entry for each route, in which every
  annotation is unsupported with the note \<open>Unknown target\<close>, so that a route with an
  annotation is \<open>breaking\<close> and a route without one is \<open>ready\<close>.
\<close>

theorem unknown_target_classified:
  assumes "target \<noteq> ''traefik''" and "target \<noteq> ''gateway-api''"
  shows "runAnalyze target cl = Inl (UnknownTarget target)
         \<and> IngressReports (Analyze target scan) = map unknownTargetReport (Ingresses scan)
         \<and> (target \<noteq> '''' \<longrightarrow> HandleAnalyze target (Scanned scan) = Inr (Analyze target scan))"
  using assms
  by (simp add: runAnalyze_def HandleAnalyze_def IngressReports_Analyze
        analyzeIngress_unknown_target)

theorem unknown_target_classified_witness:
  "''kong'' \<noteq> ''traefik'' \<and> ''kong'' \<noteq> ''gateway-api'' \<and> ''kong'' \<noteq> ''''
   \<and> runAnalyze ''kong'' (Scanned (scanOf [checkout])) = Inl (UnknownTarget ''kong'')
   \<and> HandleAnalyze ''kong'' (Scanned (scanOf [checkout]))
       = Inr (Analyze ''kong'' (scanOf [checkout]))
   \<and> map OverallStatus (IngressReports (Analyze ''kong'' (scanOf [checkout, plain])))
       = [''breaking'', ''ready'']"
  using unknown_target_classified [of "''kong''" "Scanned (scanOf [checkout])" "scanOf [checkout, plain]"]
    unknown_target_classified [of "''kong''" "Scanned (scanOf [checkout])" "scanOf [checkout]"]
  by (simp add: scanOf_def unknownTargetReport_def checkout_def plain_def)

text \<open>The claim as it is written fails: the classifier, called with the target
  \<open>kong\<close>, returns a result for each annotation of the route.\<close>

theorem unknown_target_counterexample:
  "IngressReports (Analyze ''kong'' (scanOf [checkout])) =
     [\<lparr>ir_Namespace = ''shop'', ir_Name = ''checkout'',
       Mappings =
         [\<lparr>OriginalKey = ''ssl-redirect'', OriginalValue = ''true'',
           Status = StatusUnsupported, TargetResource = '''', GeneratedYAML = '''',
           Note = ''Unknown target''\<rparr>,
          \<lparr>OriginalKey = ''limit-rps'', OriginalValue = ''50'',
           Status = StatusUnsupported, TargetResource = '''', GeneratedYAML = '''',
           Note = ''Unknown target''\<rparr>],
       OverallStatus = ''breaking''\<rparr>]"
proof -
  have "analyzeIngress ''kong'' checkout = unknownTargetReport checkout"
    by (rule analyzeIngress_unknown_target) simp_all
  then show ?thesis
    by (simp add: IngressReports_Analyze scanOf_def unknownTargetReport_def checkout_def)
qed


section \<open>The order of the mappings\<close>

text \<open>The table of the dashboard shows the mappings sorted by status.\<close>

lemma sortedMappings_by_status:
  "sorted (map (\<lambda>m. sortOrder (Status m)) (sortedMappings ms))
   \<and> mset (sortedMappings ms) = mset ms"
  by (simp add: sortedMappings_def)

text \<open>
  C7 fails on the code. The classifier appends the mappings in the order in which
  the run visits the annotation map and never sorts them. The route \<open>mixed\<close> has
  one supported, one partial and one unsupported annotation for Traefik: one visit
  of its map gives the report the supported mapping first and the unsupported one
  last, and another visit of the same map gives the report another order. The
  order that the claim states is the one of the table of the dashboard only.
\<close>

theorem mappings_follow_visit:
  "sameGoMap (NginxAnnotations mixed) (NginxAnnotations mixedOtherOrder)
   \<and> map Status (Mappings (analyzeIngress ''traefik'' mixed))
       = [StatusSupported, StatusPartial, StatusUnsupported]
   \<and> map Status (Mappings (analyzeIngress ''traefik'' mixedOtherOrder))
       = [StatusUnsupported, StatusSupported, StatusPartial]
   \<and> map Status (sortedMappings (Mappings (analyzeIngress ''traefik'' mixed)))
       = [StatusUnsupported, StatusPartial, StatusSupported]"
proof -
  have s: "sameGoMap (NginxAnnotations mixed) (NginxAnnotations mixedOtherOrder)"
    by (simp add: sameGoMap_def mixed_def mixedOtherOrder_def checkout_def)
  have m: "map Status (Mappings (analyzeIngress ''traefik'' mixed))
       = [StatusSupported, StatusPartial, StatusUnsupported]"
    by (simp add: mixed_mappings)
  have m': "map Status (Mappings (analyzeIngress ''traefik'' mixedOtherOrder))
       = [StatusUnsupported, StatusSupported, StatusPartial]"
    by (simp add: mixedOtherOrder_mappings)
  have t: "map Status (sortedMappings (Mappings (analyzeIngress ''traefik'' mixed)))
       = [StatusUnsupported, StatusPartial, StatusSupported]"
    by (simp add: mixed_mappings sortedMappings_def sortOrder_def)
  from s m m' t show ?thesis
    by (simp only: simp_thms)
qed

section \<open>The validation phase\<close>

text \<open>
  C8. The phase depends on the two facts only: it is \<open>pre-migration\<close> when the
  target controller is not running (whether the legacy controller is present or
  not), \<open>migrating\<close> when both are there, and \<open>post-migration\<close> when the target
  controller runs and the legacy controller is gone.
\<close>

theorem migrationPhase_facts:
  "Phase (migrationPhase targetRunning nginxPresent) =
     (if \<not> targetRunning then ''pre-migration''
      else if nginxPresent then ''migrating'' else ''post-migration'')"
  by (simp add: migrationPhase_def)

theorem migrationPhase_facts_witness:
  "Phase (migrationPhase False False) = ''pre-migration''
   \<and> Phase (migrationPhase False True) = ''pre-migration''
   \<and> Phase (migrationPhase True True) = ''migrating''
   \<and> Phase (migrationPhase True False) = ''post-migration''"
  using migrationPhase_facts [of False False] migrationPhase_facts [of False True]
    migrationPhase_facts [of True True] migrationPhase_facts [of True False]
  by simp

section \<open>Quoting a plain string\<close>

text \<open>A string of printable ASCII bytes without a quote or a backslash is quoted as
  itself, whatever the table.\<close>

lemma quoteRunes_plain:
  assumes "\<forall>c \<in> set s. 0x20 \<le> (of_char c :: nat) \<and> (of_char c :: nat) \<le> 0x7E
             \<and> (of_char c :: nat) \<noteq> 0x22 \<and> (of_char c :: nat) \<noteq> 0x5C"
  shows "quoteRunes printable s = s"
  using assms
proof (induction s)
  case Nil
  show ?case by simp
next
  case (Cons c cs)
  then have c: "0x20 \<le> (of_char c :: nat)" "(of_char c :: nat) \<le> 0x7E"
    "(of_char c :: nat) \<noteq> 0x22" "(of_char c :: nat) \<noteq> 0x5C"
    by simp_all
  then have d: "decodeRune c cs = (of_char c, 1)"
    by (simp add: decodeRune_def Let_def)
  have e: "appendEscapedRune printable (of_char c) [c] = [c]"
    using c by (simp add: appendEscapedRune_def IsPrint_def)
  have r: "(of_char c :: nat) \<noteq> RuneError"
    using c by (simp add: RuneError_def)
  from Cons d e r show ?case by simp
qed

lemma formatQ_plain:
  assumes "\<forall>c \<in> set s. 0x20 \<le> (of_char c :: nat) \<and> (of_char c :: nat) \<le> 0x7E
             \<and> (of_char c :: nat) \<noteq> 0x22 \<and> (of_char c :: nat) \<noteq> 0x5C"
  shows "formatQ printable s = [CHR 0x22] @ s @ [CHR 0x22]"
  by (simp add: formatQ_def quoteRunes_plain [OF assms])

section \<open>Properties of the Gateway API synthesizer\<close>

lemma goContains_single: "goContains s [c] = (c \<in> set s)"
  by (induction s) auto

lemma pathHasRegexChars_iff:
  \<open>pathHasRegexChars path = (\<exists>c \<in> set ''()|[]{}''. c \<in> set path)\<close>
  by (simp add: pathHasRegexChars_def goContains_single)

lemma emitsRegularExpression_regex: "emitsRegularExpression (regexPathMatch v)"
  by (simp add: emitsRegularExpression_def regexPathMatch_def)

lemma emitsRegularExpression_plain:
  "t = ''Exact'' \<or> t = ''PathPrefix'' \<Longrightarrow> \<not> emitsRegularExpression (plainPathMatch t v)"
  by (auto simp: emitsRegularExpression_def plainPathMatch_def)

lemma buildPathMatch_eq:
  \<open>buildPathMatch p ann =
     (if goHasKey ann ''use-regex'' \<or> (\<exists>c \<in> set ''()|[]{}''. c \<in> set (Path p))
      then regexPathMatch (if Path p = '''' then ''/'' else Path p)
      else plainPathMatch (if PathType p = ''Exact'' then ''Exact'' else ''PathPrefix'')
             (if Path p = '''' then ''/'' else Path p))\<close>
  by (simp add: buildPathMatch_def Let_def pathHasRegexChars_iff regexPathMatch_def
        plainPathMatch_def)

text \<open>
  C3. A path rule is emitted with the match type \<open>RegularExpression\<close> exactly when
  the route carries the \<open>use-regex\<close> annotation or the path contains one of the
  characters \<open>( ) | [ ] { }\<close>; otherwise it is emitted as \<open>PathPrefix\<close>, or as
  \<open>Exact\<close> when its path type is \<open>Exact\<close>.
\<close>

theorem path_match_type:
  \<open>(emitsRegularExpression (buildPathMatch p ann)
      \<longleftrightarrow> goHasKey ann ''use-regex'' \<or> (\<exists>c \<in> set ''()|[]{}''. c \<in> set (Path p)))
   \<and> (goHasKey ann ''use-regex'' \<or> (\<exists>c \<in> set ''()|[]{}''. c \<in> set (Path p)) \<longrightarrow>
        buildPathMatch p ann = regexPathMatch (if Path p = '''' then ''/'' else Path p))
   \<and> (\<not> goHasKey ann ''use-regex'' \<and> \<not> (\<exists>c \<in> set ''()|[]{}''. c \<in> set (Path p)) \<longrightarrow>
        buildPathMatch p ann =
          plainPathMatch (if PathType p = ''Exact'' then ''Exact'' else ''PathPrefix'')
            (if Path p = '''' then ''/'' else Path p))\<close>
proof (cases \<open>goHasKey ann ''use-regex'' \<or> (\<exists>c \<in> set ''()|[]{}''. c \<in> set (Path p))\<close>)
  case True
  have e: "buildPathMatch p ann = regexPathMatch (if Path p = '''' then ''/'' else Path p)"
    by (simp only: buildPathMatch_eq True if_True)
  have r: "emitsRegularExpression (buildPathMatch p ann)"
    unfolding e by (rule emitsRegularExpression_regex)
  from True e r show ?thesis by blast
next
  case False
  have e: "buildPathMatch p ann =
             plainPathMatch (if PathType p = ''Exact'' then ''Exact'' else ''PathPrefix'')
               (if Path p = '''' then ''/'' else Path p)"
    by (simp only: buildPathMatch_eq False if_False)
  have r: "\<not> emitsRegularExpression (buildPathMatch p ann)"
    unfolding e by (rule emitsRegularExpression_plain) simp
  from False e r show ?thesis by blast
qed

theorem path_match_type_witness:
  \<open>\<not> goHasKey [] ''use-regex''
   \<and> (\<exists>c \<in> set ''()|[]{}''. c \<in> set (Path (payPath\<lparr>Path := ''/api/(.*)''\<rparr>)))
   \<and> emitsRegularExpression (buildPathMatch (payPath\<lparr>Path := ''/api/(.*)''\<rparr>) [])
   \<and> buildPathMatch (payPath\<lparr>Path := ''/api/(.*)''\<rparr>) [] = regexPathMatch ''/api/(.*)''
   \<and> \<not> (\<exists>c \<in> set ''()|[]{}''. c \<in> set (Path payPath))
   \<and> \<not> emitsRegularExpression (buildPathMatch payPath [])
   \<and> buildPathMatch payPath [] = plainPathMatch ''PathPrefix'' ''/pay''
   \<and> buildPathMatch (payPath\<lparr>PathType := ''Exact''\<rparr>) [] = plainPathMatch ''Exact'' ''/pay''
   \<and> emitsRegularExpression (buildPathMatch payPath [(''use-regex'', ''true'')])\<close>
  using path_match_type [of \<open>payPath\<lparr>Path := ''/api/(.*)''\<rparr>\<close> "[]"]
    path_match_type [of payPath "[]"]
    path_match_type [of \<open>payPath\<lparr>PathType := ''Exact''\<rparr>\<close> "[]"]
    path_match_type [of payPath \<open>[(''use-regex'', ''true'')]\<close>]
  by (simp add: payPath_def goHasKey_def emitsRegularExpression_regex
        emitsRegularExpression_plain)

lemma map_of_goStore:
  "map_of (goStore m k v) k' = (if k' = k then Some v else map_of m k')"
proof -
  have a: "map_of (map (\<lambda>kv. if fst kv = k then (k, v) else kv) m) k'
             = (if k' = k then (case map_of m k of None \<Rightarrow> None | Some w \<Rightarrow> Some v)
                else map_of m k')"
    by (induction m) auto
  have b: "map_of (m @ [(k, v)]) k' = (if k' = k then Some v else map_of m k')"
    if "map_of m k = None"
    using that by (auto simp: map_add_def split: option.splits)
  show ?thesis
    using a b by (cases "map_of m k") (auto simp: goStore_def goHasKey_def)
qed


lemma goHasKey_goStore: "goHasKey (goStore m k v) k"
  by (simp add: goHasKey_def map_of_goStore)

text \<open>
  C9. The regex decision tests that the key \<open>use-regex\<close> is present and never
  reads its value: on a route annotated \<open>use-regex: "false"\<close>, or with any other
  value, every path is emitted with the match type \<open>RegularExpression\<close>.
\<close>

theorem use_regex_value_ignored:
  assumes "map_of ann ''use-regex'' = Some v"
  shows "emitsRegularExpression (buildPathMatch p ann)
         \<and> buildPathMatch p ann = regexPathMatch (if Path p = '''' then ''/'' else Path p)
         \<and> buildPathMatch p (goStore ann ''use-regex'' v') = buildPathMatch p ann"
proof -
  from assms have k: "goHasKey ann ''use-regex''"
    by (simp add: goHasKey_def)
  have k': "goHasKey (goStore ann ''use-regex'' v') ''use-regex''"
    by (rule goHasKey_goStore)
  from k k' show ?thesis
    by (simp only: buildPathMatch_eq simp_thms if_True emitsRegularExpression_regex)
qed

theorem use_regex_value_ignored_witness:
  "map_of [(''use-regex'', ''false'')] ''use-regex'' = Some ''false''
   \<and> emitsRegularExpression (buildPathMatch payPath [(''use-regex'', ''false'')])
   \<and> buildPathMatch payPath [(''use-regex'', ''false'')] = regexPathMatch ''/pay''"
  using use_regex_value_ignored [of "[(''use-regex'', ''false'')]" "''false''" payPath "''true''"]
  by (simp add: payPath_def emitsRegularExpression_regex)

















text \<open>A route that carries both annotations, and the rule it gives.\<close>

lemma formatD_8080: "formatD 8080 = ''8080''"
  by (simp add: formatD_def showNat.simps)






text \<open>Every rule comes from a path of the route.\<close>

lemma groupPathsStep_eq:
  "groupPathsStep (ho, hp) p =
     ((if hp (Host p) = None then ho @ [Host p] else ho),
      hp(Host p \<mapsto> (case hp (Host p) of None \<Rightarrow> [] | Some ps \<Rightarrow> ps) @ [p]))"
  by (simp add: groupPathsStep_def)

lemma groupPaths_foldl_subset:
  assumes "foldl groupPathsStep (ho, hp) ps = (ho', hp')"
    and "\<And>h qs. hp h = Some qs \<Longrightarrow> set qs \<subseteq> S"
    and "set ps \<subseteq> S"
    and "hp' h = Some qs"
  shows "set qs \<subseteq> S"
  using assms
proof (induction ps arbitrary: ho hp)
  case Nil
  then show ?case by simp
next
  case (Cons p ps)
  let ?ho = "if hp (Host p) = None then ho @ [Host p] else ho"
  let ?hp = "hp(Host p \<mapsto> (case hp (Host p) of None \<Rightarrow> [] | Some ps \<Rightarrow> ps) @ [p])"
  have f: "foldl groupPathsStep (?ho, ?hp) ps = (ho', hp')"
    using Cons.prems(1) by (simp only: foldl_Cons groupPathsStep_eq)
  have s: "set qs' \<subseteq> S" if "?hp h' = Some qs'" for h' qs'
  proof (cases "h' = Host p")
    case True
    with that have "qs' = (case hp (Host p) of None \<Rightarrow> [] | Some ps \<Rightarrow> ps) @ [p]"
      by simp
    moreover have "p \<in> S" using Cons.prems(3) by simp
    ultimately show ?thesis
      using Cons.prems(2) [of "Host p"] by (auto split: option.splits)
  next
    case False
    with that have "hp h' = Some qs'" by simp
    then show ?thesis by (rule Cons.prems(2))
  qed
  show ?case
    using Cons.IH [OF f s _ Cons.prems(4)] Cons.prems(3) by simp
qed

lemma pathsInRuleOrder_subset: "set (pathsInRuleOrder ps) \<subseteq> set ps"
proof -
  obtain ho hp where g: "groupPaths ps = (ho, hp)"
    by (cases "groupPaths ps")
  then have f: "foldl groupPathsStep ([], Map.empty) ps = (ho, hp)"
    by (simp add: groupPaths_def)
  have "set qs \<subseteq> set ps" if "hp h = Some qs" for h qs
    by (rule groupPaths_foldl_subset [OF f _ _ that]) simp_all
  then have "x \<in> set ps" if "Some qs = hp h" and "x \<in> set qs" for h qs x
    using that by (metis subsetD)
  then show ?thesis
    by (auto simp: pathsInRuleOrder_def g split: option.splits)
qed

lemma goJoin_no_sep: "sep = [] \<Longrightarrow> goJoin xs sep = concat xs"
  by (induction xs sep rule: goJoin.induct) simp_all

lemma goJoin_empty_sep: "goJoin xs '''' = concat xs"
  by (rule goJoin_no_sep) simp

lemma firstLine_filters:
  assumes "f \<in> set (buildBackendFilters ann)"
  shows "firstLine f = ''    - type: URLRewrite'' \<or> firstLine f = ''    - type: ResponseHeaderModifier''"
  using assms
  by (auto simp: buildBackendFilters_def Let_def buildCORSFilter_def firstLine_def
        split: if_splits)

lemma firstLine_backendRefs: "firstLine (buildBackendRefs p c w) = ''    backendRefs:''"
  by (simp add: buildBackendRefs_def Let_def firstLine_def)


text \<open>The files of the scenario route.\<close>

lemma formatD_small: "formatD 0 = ''0''" "formatD 301 = ''301''" "formatD 302 = ''302''"
  by (simp_all add: formatD_def showNat.simps)

lemma pathsInRuleOrder_single: "pathsInRuleOrder [p] = [p]"
  by (simp add: pathsInRuleOrder_def groupPaths_def groupPathsStep_def)

lemma checkout_sections:
  "buildHostnameToSection (scanOf [checkout]) = []"
  "buildHostnameToSection (scanOf [checkoutTLS]) = [(''shop.example.com'', ''https-0'')]"
  by (simp_all add: buildHostnameToSection_def hostnameToSectionIngress_def
        hostnameToSectionSecret_def scanOf_def checkoutTLS_def checkout_def goStore_def
        goHasKey_def formatD_small)

lemma checkout_rules:
  \<open>redirectRules checkout 302 =
     [''  - matches:\<newline>'' @ ''    - path:\<newline>'' @ ''        type: PathPrefix\<newline>''
      @ ''        value: "/pay"\<newline>'' @ ''    filters:\<newline>''
      @ ''    - type: RequestRedirect\<newline>'' @ ''      requestRedirect:\<newline>''
      @ ''        scheme: https\<newline>'' @ ''        statusCode: 302\<newline>'']\<close>
  \<open>backendRules checkout (NginxAnnotations checkout) =
     [''  - matches:\<newline>'' @ ''    - path:\<newline>'' @ ''        type: PathPrefix\<newline>''
      @ ''        value: "/pay"\<newline>'' @ ''    backendRefs:\<newline>'' @ ''    - name: pay\<newline>''
      @ ''      port: 8080\<newline>'']\<close>
  by (simp_all add: redirectRules_def backendRules_def redirectRule_def backendRule_def
        redirectFilter_def ruleMatch_def buildPathMatch_eq plainPathMatch_def
        buildHeaderMatches_def filterSection_def buildBackendFilters_def buildBackendRefs_def
        buildTimeouts_def goIndex_def goHasKey_def checkout_def payPath_def
        pathsInRuleOrder_single formatD_8080 formatD_small)

lemma checkout_hostnames:
  \<open>buildHostnameSection printable (Hosts checkout) =
     ''  hostnames:\<newline>'' @ ''  - "shop.example.com"\<newline>''\<close>
proof -
  have q: "formatQ printable ''shop.example.com'' = [CHR 0x22] @ ''shop.example.com'' @ [CHR 0x22]"
    by (rule formatQ_plain) simp
  show ?thesis
    by (simp add: buildHostnameSection_def checkout_def q)
qed

lemma checkout_redirectRoute:
  \<open>redirectRoute printable checkout defaultGatewayName defaultGatewayNamespace =
     ''# HTTP'' @ [CHR 0xE2, CHR 0x86, CHR 0x92]
     @ ''HTTPS redirect route (attached to HTTP listener only)\<newline>''
     @ ''apiVersion: gateway.networking.k8s.io/v1\<newline>''
     @ ''kind: HTTPRoute\<newline>'' @ ''metadata:\<newline>''
     @ ''  name: checkout-redirect\<newline>'' @ ''  namespace: shop\<newline>''
     @ ''spec:\<newline>'' @ ''  parentRefs:\<newline>''
     @ ''  - name: ing-switch-gateway\<newline>'' @ ''    namespace: default\<newline>''
     @ ''    sectionName: http\<newline>'' @ ''  hostnames:\<newline>''
     @ ''  - "shop.example.com"\<newline>'' @ ''  rules:\<newline>''
     @ ''  - matches:\<newline>'' @ ''    - path:\<newline>''
     @ ''        type: PathPrefix\<newline>'' @ ''        value: "/pay"\<newline>''
     @ ''    filters:\<newline>'' @ ''    - type: RequestRedirect\<newline>''
     @ ''      requestRedirect:\<newline>'' @ ''        scheme: https\<newline>''
     @ ''        statusCode: 302\<newline>''\<close>
  by (simp add: redirectRoute_def redirectParentRef_def buildRedirectOnlyRules_def
        redirectStatusCode_def goIndex_def checkout_hostnames checkout_rules
        defaultGatewayName_def defaultGatewayNamespace_def)
     (simp add: checkout_def)

lemma checkout_backendRoute:
  \<open>generateSingleHTTPRoute printable checkout defaultGatewayName defaultGatewayNamespace sec =
     ''apiVersion: gateway.networking.k8s.io/v1\<newline>'' @ ''kind: HTTPRoute\<newline>''
     @ ''metadata:\<newline>'' @ ''  name: checkout\<newline>''
     @ ''  namespace: shop\<newline>'' @ ''spec:\<newline>'' @ ''  parentRefs:\<newline>''
     @ ''  - name: ing-switch-gateway\<newline>'' @ ''    namespace: default''
     @ (if sec = '''' then '''' else ''\<newline>'' @ ''    sectionName: '' @ sec)
     @ ''\<newline>'' @ ''  hostnames:\<newline>'' @ ''  - "shop.example.com"\<newline>''
     @ ''  rules:\<newline>'' @ ''  - matches:\<newline>'' @ ''    - path:\<newline>''
     @ ''        type: PathPrefix\<newline>'' @ ''        value: "/pay"\<newline>''
     @ ''    backendRefs:\<newline>'' @ ''    - name: pay\<newline>''
     @ ''      port: 8080\<newline>''\<close>
  by (simp add: generateSingleHTTPRoute_def backendParentRef_def buildBackendOnlyRules_def
        checkout_hostnames checkout_rules defaultGatewayName_def defaultGatewayNamespace_def)
     (simp add: checkout_def)


text \<open>
  What \<^verbatim>\<open>generateHTTPRoute\<close> gives for every route that sets \<open>ssl-redirect\<close> or
  \<open>force-ssl-redirect\<close> to \<open>true\<close>: two route objects separated by a document
  mark. The first is the HTTPRoute \<open>name-redirect\<close>, bound to the listener section
  \<open>http\<close>; each of its rules is the match of a path of the route followed by one
  RequestRedirect filter, with no backendRefs. The second is the backend HTTPRoute;
  each of its rules is the match of a path followed by filters of type URLRewrite
  or ResponseHeaderModifier only, a backendRefs block and the timeouts. Its section
  name is the one that the table gives for the first host of the route, and the
  line is left out when that name is empty.
\<close>

lemma split_routes_structure:
  assumes "goIndex (NginxAnnotations ing) ''ssl-redirect'' = ''true''
           \<or> goIndex (NginxAnnotations ing) ''force-ssl-redirect'' = ''true''"
  shows
    \<open>generateHTTPRoute printable ing gw ns h2s =
        redirectRoute printable ing gw ns @ ''---\<newline>''
        @ generateSingleHTTPRoute printable ing gw ns (httpsSectionName ing h2s)
     \<and> redirectRoute printable ing gw ns =
        ''# HTTP'' @ [CHR 0xE2, CHR 0x86, CHR 0x92]
        @ ''HTTPS redirect route (attached to HTTP listener only)\<newline>''
        @ ''apiVersion: gateway.networking.k8s.io/v1\<newline>'' @ ''kind: HTTPRoute\<newline>''
        @ ''metadata:\<newline>'' @ ''  name: '' @ Name ing @ ''-redirect\<newline>''
        @ ''  namespace: '' @ Namespace ing @ ''\<newline>'' @ ''spec:\<newline>'' @ ''  parentRefs:\<newline>''
        @ ''  - name: '' @ gw @ ''\<newline>'' @ ''    namespace: '' @ ns @ ''\<newline>''
        @ ''    sectionName: http\<newline>''
        @ buildHostnameSection printable (Hosts ing) @ ''  rules:\<newline>''
        @ concat (redirectRules ing (redirectStatusCode (NginxAnnotations ing)))
     \<and> (\<forall>r \<in> set (redirectRules ing (redirectStatusCode (NginxAnnotations ing))).
          \<exists>p \<in> set (Paths ing).
            r = ruleMatch p (NginxAnnotations ing)
                @ ''    filters:\<newline>'' @ ''    - type: RequestRedirect\<newline>''
                @ ''      requestRedirect:\<newline>'' @ ''        scheme: https\<newline>''
                @ ''        statusCode: '' @ formatD (redirectStatusCode (NginxAnnotations ing))
                @ ''\<newline>'')
     \<and> generateSingleHTTPRoute printable ing gw ns (httpsSectionName ing h2s) =
        ''apiVersion: gateway.networking.k8s.io/v1\<newline>'' @ ''kind: HTTPRoute\<newline>''
        @ ''metadata:\<newline>'' @ ''  name: '' @ Name ing @ ''\<newline>''
        @ ''  namespace: '' @ Namespace ing @ ''\<newline>'' @ ''spec:\<newline>'' @ ''  parentRefs:\<newline>''
        @ ''  - name: '' @ gw @ ''\<newline>'' @ ''    namespace: '' @ ns
        @ (if httpsSectionName ing h2s = '''' then ''''
           else ''\<newline>'' @ ''    sectionName: '' @ httpsSectionName ing h2s)
        @ ''\<newline>'' @ buildHostnameSection printable (Hosts ing) @ ''  rules:\<newline>''
        @ concat (backendRules ing (NginxAnnotations ing))
     \<and> httpsSectionName ing h2s =
        (if Hosts ing = [] then '''' else goIndex h2s (hd (Hosts ing)))
     \<and> (\<forall>r \<in> set (backendRules ing (NginxAnnotations ing)).
          \<exists>p \<in> set (Paths ing).
            r = ruleMatch p (NginxAnnotations ing)
                @ (if buildBackendFilters (NginxAnnotations ing) = [] then ''''
                   else ''    filters:\<newline>'' @ concat (buildBackendFilters (NginxAnnotations ing)))
                @ buildBackendRefs p (goIndex (NginxAnnotations ing) ''canary'' = ''true'')
                    (goIndex (NginxAnnotations ing) ''canary-weight'')
                @ buildTimeouts (NginxAnnotations ing))
     \<and> (\<forall>f \<in> set (buildBackendFilters (NginxAnnotations ing)).
          firstLine f = ''    - type: URLRewrite''
          \<or> firstLine f = ''    - type: ResponseHeaderModifier'')
     \<and> (\<forall>p c w. firstLine (buildBackendRefs p c w) = ''    backendRefs:'')\<close>
proof -
  let ?ann = "NginxAnnotations ing"
  from assms have s: "hasSSLRedirect ?ann"
    by (auto simp: hasSSLRedirect_def)
  have a: \<open>generateHTTPRoute printable ing gw ns h2s =
        redirectRoute printable ing gw ns @ ''---\<newline>''
        @ generateSingleHTTPRoute printable ing gw ns (httpsSectionName ing h2s)\<close>
    using s by (simp add: generateHTTPRoute_def generateSplitHTTPRoutes_def)
  have b: \<open>redirectRoute printable ing gw ns =
        ''# HTTP'' @ [CHR 0xE2, CHR 0x86, CHR 0x92]
        @ ''HTTPS redirect route (attached to HTTP listener only)\<newline>''
        @ ''apiVersion: gateway.networking.k8s.io/v1\<newline>'' @ ''kind: HTTPRoute\<newline>''
        @ ''metadata:\<newline>'' @ ''  name: '' @ Name ing @ ''-redirect\<newline>''
        @ ''  namespace: '' @ Namespace ing @ ''\<newline>'' @ ''spec:\<newline>'' @ ''  parentRefs:\<newline>''
        @ ''  - name: '' @ gw @ ''\<newline>'' @ ''    namespace: '' @ ns @ ''\<newline>''
        @ ''    sectionName: http\<newline>''
        @ buildHostnameSection printable (Hosts ing) @ ''  rules:\<newline>''
        @ concat (redirectRules ing (redirectStatusCode ?ann))\<close>
    by (simp add: redirectRoute_def redirectParentRef_def buildRedirectOnlyRules_def
          goJoin_empty_sep)
  have c: \<open>\<forall>r \<in> set (redirectRules ing (redirectStatusCode ?ann)).
          \<exists>p \<in> set (Paths ing).
            r = ruleMatch p ?ann
                @ ''    filters:\<newline>'' @ ''    - type: RequestRedirect\<newline>''
                @ ''      requestRedirect:\<newline>'' @ ''        scheme: https\<newline>''
                @ ''        statusCode: '' @ formatD (redirectStatusCode ?ann)
                @ ''\<newline>''\<close>
    using pathsInRuleOrder_subset [of "Paths ing"]
    by (auto simp: redirectRules_def redirectRule_def redirectFilter_def)
  have d: \<open>generateSingleHTTPRoute printable ing gw ns (httpsSectionName ing h2s) =
        ''apiVersion: gateway.networking.k8s.io/v1\<newline>'' @ ''kind: HTTPRoute\<newline>''
        @ ''metadata:\<newline>'' @ ''  name: '' @ Name ing @ ''\<newline>''
        @ ''  namespace: '' @ Namespace ing @ ''\<newline>'' @ ''spec:\<newline>'' @ ''  parentRefs:\<newline>''
        @ ''  - name: '' @ gw @ ''\<newline>'' @ ''    namespace: '' @ ns
        @ (if httpsSectionName ing h2s = '''' then ''''
           else ''\<newline>'' @ ''    sectionName: '' @ httpsSectionName ing h2s)
        @ ''\<newline>'' @ buildHostnameSection printable (Hosts ing) @ ''  rules:\<newline>''
        @ concat (backendRules ing ?ann)\<close>
    by (simp add: generateSingleHTTPRoute_def backendParentRef_def buildBackendOnlyRules_def
          goJoin_empty_sep)
  have e: "httpsSectionName ing h2s =
        (if Hosts ing = [] then '''' else goIndex h2s (hd (Hosts ing)))"
    by (simp add: httpsSectionName_def)
  have f: \<open>\<forall>r \<in> set (backendRules ing ?ann).
          \<exists>p \<in> set (Paths ing).
            r = ruleMatch p ?ann
                @ (if buildBackendFilters ?ann = [] then ''''
                   else ''    filters:\<newline>'' @ concat (buildBackendFilters ?ann))
                @ buildBackendRefs p (goIndex ?ann ''canary'' = ''true'')
                    (goIndex ?ann ''canary-weight'')
                @ buildTimeouts ?ann\<close>
    using pathsInRuleOrder_subset [of "Paths ing"]
    by (auto simp: backendRules_def backendRule_def filterSection_def goJoin_empty_sep)
  have g: "\<forall>f \<in> set (buildBackendFilters ?ann).
          firstLine f = ''    - type: URLRewrite''
          \<or> firstLine f = ''    - type: ResponseHeaderModifier''"
    using firstLine_filters by blast
  have h: "\<forall>p c w. firstLine (buildBackendRefs p c w) = ''    backendRefs:''"
    by (simp add: firstLine_backendRefs)
  from a b c d e f g h show ?thesis
    by (intro conjI)
qed


lemma checkout_gateway:
  \<open>generateGateway (scanOf [checkout]) =
      ''apiVersion: gateway.networking.k8s.io/v1\<newline>'' @ ''kind: Gateway\<newline>''
      @ ''metadata:\<newline>'' @ ''  name: ing-switch-gateway\<newline>''
      @ ''  namespace: default\<newline>'' @ ''spec:\<newline>''
      @ ''  gatewayClassName: eg\<newline>'' @ ''  listeners:\<newline>''
      @ ''  - name: http\<newline>'' @ ''    protocol: HTTP\<newline>''
      @ ''    port: 80\<newline>'' @ ''    allowedRoutes:\<newline>''
      @ ''      namespaces:\<newline>'' @ ''        from: All\<newline>''
      @ ''  - name: https\<newline>'' @ ''    protocol: HTTPS\<newline>''
      @ ''    port: 443\<newline>'' @ ''    # Add TLS configuration:\<newline>''
      @ ''    # tls:\<newline>'' @ ''    #   mode: Terminate\<newline>''
      @ ''    #   certificateRefs:\<newline>''
      @ ''    #   - name: your-tls-secret\<newline>''
      @ ''    #     namespace: your-namespace\<newline>''\<close>
  by (simp add: generateGateway_def tlsEntries_def tlsEntriesOf_def scanOf_def checkout_def
        enumerate_eq_zip defaultGatewayName_def defaultGatewayNamespace_def)

text \<open>
  C1 fails on the code. The route of the scenario sets \<open>ssl-redirect\<close> to \<open>true\<close>
  and has no TLS secret. The Gateway of its scan has the listeners \<open>http\<close> and
  \<open>https\<close>, but the hostname-to-section table has no entry for the host of the
  route, so the backend HTTPRoute of its file is written without a section name:
  it is not bound to the encrypted listener section and attaches to the plaintext
  listener as well, next to the HTTPRoute \<open>checkout-redirect\<close>.
\<close>

theorem ssl_redirect_backend_unbound:
  \<open>goIndex (NginxAnnotations checkout) ''ssl-redirect'' = ''true''
   \<and> generateGateway (scanOf [checkout]) =
      ''apiVersion: gateway.networking.k8s.io/v1\<newline>'' @ ''kind: Gateway\<newline>''
      @ ''metadata:\<newline>'' @ ''  name: ing-switch-gateway\<newline>''
      @ ''  namespace: default\<newline>'' @ ''spec:\<newline>''
      @ ''  gatewayClassName: eg\<newline>'' @ ''  listeners:\<newline>''
      @ ''  - name: http\<newline>'' @ ''    protocol: HTTP\<newline>''
      @ ''    port: 80\<newline>'' @ ''    allowedRoutes:\<newline>''
      @ ''      namespaces:\<newline>'' @ ''        from: All\<newline>''
      @ ''  - name: https\<newline>'' @ ''    protocol: HTTPS\<newline>''
      @ ''    port: 443\<newline>'' @ ''    # Add TLS configuration:\<newline>''
      @ ''    # tls:\<newline>'' @ ''    #   mode: Terminate\<newline>''
      @ ''    #   certificateRefs:\<newline>''
      @ ''    #   - name: your-tls-secret\<newline>''
      @ ''    #     namespace: your-namespace\<newline>''
   \<and> httpsSectionName checkout (buildHostnameToSection (scanOf [checkout])) = ''''
   \<and> map Content (migrateHTTPRoutes latin1Only (scanOf [checkout])) =
     [
      ''# HTTP'' @ [CHR 0xE2, CHR 0x86, CHR 0x92]
      @ ''HTTPS redirect route (attached to HTTP listener only)\<newline>''
      @ ''apiVersion: gateway.networking.k8s.io/v1\<newline>''
      @ ''kind: HTTPRoute\<newline>'' @ ''metadata:\<newline>''
      @ ''  name: checkout-redirect\<newline>'' @ ''  namespace: shop\<newline>''
      @ ''spec:\<newline>'' @ ''  parentRefs:\<newline>''
      @ ''  - name: ing-switch-gateway\<newline>'' @ ''    namespace: default\<newline>''
      @ ''    sectionName: http\<newline>'' @ ''  hostnames:\<newline>''
      @ ''  - "shop.example.com"\<newline>'' @ ''  rules:\<newline>''
      @ ''  - matches:\<newline>'' @ ''    - path:\<newline>''
      @ ''        type: PathPrefix\<newline>'' @ ''        value: "/pay"\<newline>''
      @ ''    filters:\<newline>'' @ ''    - type: RequestRedirect\<newline>''
      @ ''      requestRedirect:\<newline>'' @ ''        scheme: https\<newline>''
      @ ''        statusCode: 302\<newline>'' @ ''---\<newline>''
      @ ''apiVersion: gateway.networking.k8s.io/v1\<newline>''
      @ ''kind: HTTPRoute\<newline>'' @ ''metadata:\<newline>''
      @ ''  name: checkout\<newline>'' @ ''  namespace: shop\<newline>''
      @ ''spec:\<newline>'' @ ''  parentRefs:\<newline>''
      @ ''  - name: ing-switch-gateway\<newline>'' @ ''    namespace: default\<newline>''
      @ ''  hostnames:\<newline>'' @ ''  - "shop.example.com"\<newline>''
      @ ''  rules:\<newline>'' @ ''  - matches:\<newline>'' @ ''    - path:\<newline>''
      @ ''        type: PathPrefix\<newline>'' @ ''        value: "/pay"\<newline>''
      @ ''    backendRefs:\<newline>'' @ ''    - name: pay\<newline>''
      @ ''      port: 8080\<newline>'']\<close>
proof -
  have a: "goIndex (NginxAnnotations checkout) ''ssl-redirect'' = ''true''"
    by (simp add: checkout_def goIndex_def)
  have s: "httpsSectionName checkout (buildHostnameToSection (scanOf [checkout])) = ''''"
    by (simp add: checkout_sections httpsSectionName_def goIndex_def)
  have g: "generateHTTPRoute latin1Only checkout defaultGatewayName defaultGatewayNamespace
             (buildHostnameToSection (scanOf [checkout]))
           = redirectRoute latin1Only checkout defaultGatewayName defaultGatewayNamespace
             @ ''---\<newline>''
             @ generateSingleHTTPRoute latin1Only checkout defaultGatewayName
                 defaultGatewayNamespace ''''"
    using split_routes_structure [of checkout latin1Only defaultGatewayName
        defaultGatewayNamespace "buildHostnameToSection (scanOf [checkout])"] a s
    by simp
  have m: "map Content (migrateHTTPRoutes latin1Only (scanOf [checkout]))
           = [generateHTTPRoute latin1Only checkout defaultGatewayName defaultGatewayNamespace
                (buildHostnameToSection (scanOf [checkout]))]"
    by (simp add: migrateHTTPRoutes_def httpRouteFile_def Let_def scanOf_def)
  from a s show ?thesis
    by (simp add: m g checkout_redirectRoute checkout_backendRoute checkout_gateway)
qed

section \<open>The Traefik synthesizer and the order of a map\<close>

lemma upload_annotations:
  "updatedAnnotations upload [] =
     [(''kubernetes.io/ingress.class'', ''nginx''),
      (''nginx.ingress.kubernetes.io/proxy-body-size'', ''8m'')]"
  by (simp add: updatedAnnotations_def copyAnnotations_def toRemove_def goStore_def
        goDelete_def goHasKey_def upload_def checkout_def)

lemma upload_annotation_lines:
  \<open>map (\<lambda>k. ''    '' @ k @ '': '' @ formatQ printable (goIndex (updatedAnnotations upload []) k))
     [''kubernetes.io/ingress.class'', ''nginx.ingress.kubernetes.io/proxy-body-size'']
   = [''    kubernetes.io/ingress.class: "nginx"'',
      ''    nginx.ingress.kubernetes.io/proxy-body-size: "8m"'']\<close>
  \<open>map (\<lambda>k. ''    '' @ k @ '': '' @ formatQ printable (goIndex (updatedAnnotations upload []) k))
     [''nginx.ingress.kubernetes.io/proxy-body-size'', ''kubernetes.io/ingress.class'']
   = [''    nginx.ingress.kubernetes.io/proxy-body-size: "8m"'',
      ''    kubernetes.io/ingress.class: "nginx"'']\<close>
proof -
  have q: "formatQ printable ''nginx'' = [CHR 0x22] @ ''nginx'' @ [CHR 0x22]"
    "formatQ printable ''8m'' = [CHR 0x22] @ ''8m'' @ [CHR 0x22]"
    by (rule formatQ_plain, simp)+
  show
    \<open>map (\<lambda>k. ''    '' @ k @ '': '' @ formatQ printable (goIndex (updatedAnnotations upload []) k))
       [''kubernetes.io/ingress.class'', ''nginx.ingress.kubernetes.io/proxy-body-size'']
     = [''    kubernetes.io/ingress.class: "nginx"'',
        ''    nginx.ingress.kubernetes.io/proxy-body-size: "8m"'']\<close>
    \<open>map (\<lambda>k. ''    '' @ k @ '': '' @ formatQ printable (goIndex (updatedAnnotations upload []) k))
       [''nginx.ingress.kubernetes.io/proxy-body-size'', ''kubernetes.io/ingress.class'']
     = [''    nginx.ingress.kubernetes.io/proxy-body-size: "8m"'',
        ''    kubernetes.io/ingress.class: "nginx"'']\<close>
    by (simp_all add: upload_annotations goIndex_def q)
qed

text \<open>
  C5 fails on the Traefik synthesizer. \<^verbatim>\<open>generateUpdatedIngress\<close> prints the
  annotations in the order in which the runtime visits the map, and that order is
  not fixed: for the route \<open>upload\<close> both orders of its two annotations are visits
  of the same map, and the two runs give two different file contents.
\<close>

theorem updated_ingress_depends_on_visit:
  "visitsKeys (map fst (updatedAnnotations upload []))
     [''kubernetes.io/ingress.class'', ''nginx.ingress.kubernetes.io/proxy-body-size'']
   \<and> visitsKeys (map fst (updatedAnnotations upload []))
     [''nginx.ingress.kubernetes.io/proxy-body-size'', ''kubernetes.io/ingress.class'']
   \<and> generateUpdatedIngress latin1Only
        [''kubernetes.io/ingress.class'', ''nginx.ingress.kubernetes.io/proxy-body-size'']
        [''shop.example.com''] upload []
     \<noteq> generateUpdatedIngress latin1Only
        [''nginx.ingress.kubernetes.io/proxy-body-size'', ''kubernetes.io/ingress.class'']
        [''shop.example.com''] upload []"
proof -
  have v: "visitsKeys (map fst (updatedAnnotations upload []))
     [''kubernetes.io/ingress.class'', ''nginx.ingress.kubernetes.io/proxy-body-size'']"
    "visitsKeys (map fst (updatedAnnotations upload []))
     [''nginx.ingress.kubernetes.io/proxy-body-size'', ''kubernetes.io/ingress.class'']"
    by (auto simp: upload_annotations visitsKeys_def)
  have n: "generateUpdatedIngress latin1Only
        [''kubernetes.io/ingress.class'', ''nginx.ingress.kubernetes.io/proxy-body-size'']
        [''shop.example.com''] upload []
     \<noteq> generateUpdatedIngress latin1Only
        [''nginx.ingress.kubernetes.io/proxy-body-size'', ''kubernetes.io/ingress.class'']
        [''shop.example.com''] upload []"
    by (simp add: generateUpdatedIngress_def Let_def upload_annotation_lines)
  from v n show ?thesis by simp
qed

end
